theory Spec2Isabelle
  imports Complex_Main
begin

section \<open>JavaScript values and arrays\<close>

text \<open>
  The program is TypeScript. Cell states, coordinates and half-extents are integral
  numbers and are modelled as \<open>int\<close>; ambient-occlusion values, vertex positions and
  animation progress are modelled as \<open>real\<close> (exact arithmetic in place of IEEE doubles).

  An array slot holds a value or is empty: reading an empty slot, or reading past the end
  of the array, yields \<open>undefined\<close>. A slot is therefore an \<open>option\<close>, with \<open>None\<close> for
  \<open>undefined\<close>. The program only ever tests such values with \<open>!= null\<close>, which is false
  for \<open>null\<close> and for \<open>undefined\<close> alike, so \<open>None\<close> stands for both.
\<close>

text \<open>
  The outcomes of a call other than a value of its declared type: a thrown \<open>RangeError\<close>
  or \<open>TypeError\<close>, and \<open>NullGridState\<close>, which is no exception: \<open>makeUpdated\<close> returns an
  object whose \<open>grid\<close> field is \<open>null\<close>, which is no \<open>GridState\<close>.
\<close>

datatype error = RangeError | TypeError | NullGridState

type_synonym 'a jsarray = "'a option list"

text \<open>\<open>xs[i]\<close>: \<open>undefined\<close> outside the array.\<close>

definition js_get :: "'a jsarray \<Rightarrow> int \<Rightarrow> 'a option" where
  "js_get xs i = (if 0 \<le> i \<and> i < int (length xs) then xs ! nat i else None)"

text \<open>
  \<open>xs[i] = v\<close>: inside the array the slot is overwritten; past the end the array grows,
  the slots in between staying empty; a negative \<open>i\<close> names a property that is no array
  element, so no slot changes.
\<close>

definition js_set :: "'a jsarray \<Rightarrow> int \<Rightarrow> 'a \<Rightarrow> 'a jsarray" where
  "js_set xs i v =
     (if i < 0 then xs
      else if i < int (length xs) then xs[nat i := Some v]
      else xs @ replicate (nat i - length xs) None @ [Some v])"

text \<open>
  \<open>Array<number>(n)\<close>: an array of \<open>n\<close> empty slots; a \<open>RangeError\<close> unless \<open>n\<close> is an
  integer in \<open>[0, 2^32 - 1]\<close>.
\<close>

definition Array_new :: "int \<Rightarrow> error + 'a jsarray" where
  "Array_new n = (if 0 \<le> n \<and> n < 2 ^ 32 then Inr (replicate (nat n) None) else Inl RangeError)"

text \<open>\<open>arr.fill(v)\<close>: every slot set to \<open>v\<close>.\<close>

definition fill :: "'a jsarray \<Rightarrow> 'a \<Rightarrow> 'a jsarray" where
  "fill xs v = map (\<lambda>_. Some v) xs"

text \<open>
  \<open>Array.from({length: n}, f)\<close>: the length is clamped below at 0 (\<open>ToLength\<close>), the
  callback is called once per index in increasing order; a \<open>RangeError\<close> when the length
  exceeds \<open>2^32 - 1\<close>. The callback here receives the index of the call.
\<close>

definition Array_from_length :: "int \<Rightarrow> (nat \<Rightarrow> 'a) \<Rightarrow> error + 'a jsarray" where
  "Array_from_length n f =
     (if max 0 n < 2 ^ 32 then Inr (map (\<lambda>i. Some (f i)) [0..<nat (max 0 n)]) else Inl RangeError)"

section \<open>GridDimensions (src/grid/cellGrid.ts)\<close>

record GridDimensions =
  X :: int
  Y :: int
  Z :: int

definition indexOf :: "GridDimensions \<Rightarrow> int \<Rightarrow> int \<Rightarrow> int \<Rightarrow> int" where
  "indexOf d x y z = (x + X d) * 4 * Y d * Z d + (y + Y d) * 2 * Z d + (z + Z d)"

definition inBounds :: "GridDimensions \<Rightarrow> int \<Rightarrow> int \<Rightarrow> int \<Rightarrow> bool" where
  "inBounds d x y z \<longleftrightarrow>
     x \<ge> - X d \<and> x < X d \<and> y \<ge> - Y d \<and> y < Y d \<and> z \<ge> - Z d \<and> z \<le> Z d"

text \<open>
  The iterator \<open>[Symbol.iterator]\<close>: its state is \<open>(i, j, k)\<close>, and \<open>coords_from d i j k\<close> is
  the list of the values that the calls of \<open>next\<close> yield from that state until \<open>done\<close>.
\<close>

function coords_from :: "GridDimensions \<Rightarrow> int \<Rightarrow> int \<Rightarrow> int \<Rightarrow> (int \<times> int \<times> int) list" where
  "coords_from d i j k =
    (let j1 = (if k \<ge> Z d then j + 1 else j);
         k1 = (if k \<ge> Z d then - Z d else k);
         i2 = (if j1 \<ge> Y d then i + 1 else i);
         j2 = (if j1 \<ge> Y d then - Y d else j1)
     in if i2 \<ge> X d then [] else (i2, j2, k1) # coords_from d i2 j2 (k1 + 1))"
  by pat_completeness auto
termination
  apply (relation "measures [\<lambda>(d, i, j, k). nat (X d - i), \<lambda>(d, i, j, k). nat (Y d - j),
                              \<lambda>(d, i, j, k). nat (Z d - k)]")
   apply (auto split: if_splits)
  done

declare coords_from.simps [simp del]

text \<open>\<open>for (let coord of dims)\<close> visits these coordinates, in this order.\<close>

definition coords :: "GridDimensions \<Rightarrow> (int \<times> int \<times> int) list" where
  "coords d = coords_from d (- X d) (- Y d) (- Z d)"

section \<open>CellGrid (src/grid/cellGrid.ts)\<close>

record CellGrid =
  dims :: GridDimensions
  cells :: "int jsarray"
  states :: int

definition makeEmpty :: "GridDimensions \<Rightarrow> int \<Rightarrow> error + CellGrid" where
  "makeEmpty d st =
     (case Array_new (8 * X d * Y d * Z d) of
        Inl e \<Rightarrow> Inl e
      | Inr a \<Rightarrow> Inr \<lparr>dims = d, cells = fill a 0, states = st\<rparr>)"

definition makeFull :: "GridDimensions \<Rightarrow> int \<Rightarrow> error + CellGrid" where
  "makeFull d st =
     (case Array_new (8 * X d * Y d * Z d) of
        Inl e \<Rightarrow> Inl e
      | Inr a \<Rightarrow> Inr \<lparr>dims = d, cells = fill a 1, states = st\<rparr>)"

text \<open>
  \<open>makeRandom\<close>: \<open>rnd i\<close> is the value of the \<open>i\<close>-th call of \<open>Math.random()\<close>, one call per
  cell. The constructor call passes no \<open>states\<close>, so the field takes its default 2.
\<close>

definition makeRandom :: "GridDimensions \<Rightarrow> real \<Rightarrow> int \<Rightarrow> (nat \<Rightarrow> real) \<Rightarrow> error + CellGrid" where
  "makeRandom d prob st rnd =
     (case Array_from_length (8 * X d * Y d * Z d) (\<lambda>i. if rnd i < prob then st - 1 else 0) of
        Inl e \<Rightarrow> Inl e
      | Inr a \<Rightarrow> Inr \<lparr>dims = d, cells = a, states = 2\<rparr>)"

text \<open>\<open>makeFromCells\<close> returns \<open>null\<close> (here \<open>None\<close>) on a length mismatch.\<close>

definition makeFromCells :: "GridDimensions \<Rightarrow> int jsarray \<Rightarrow> int \<Rightarrow> CellGrid option" where
  "makeFromCells d cs st =
     (if 8 * X d * Y d * Z d = int (length cs) then Some \<lparr>dims = d, cells = cs, states = st\<rparr>
      else None)"

definition getCell :: "CellGrid \<Rightarrow> int \<Rightarrow> int \<Rightarrow> int \<Rightarrow> int option" where
  "getCell g x y z =
     (if inBounds (dims g) x y z then js_get (cells g) (indexOf (dims g) x y z) else None)"

definition isVisible :: "CellGrid \<Rightarrow> int \<Rightarrow> int \<Rightarrow> int \<Rightarrow> bool" where
  "isVisible g x y z = (case getCell g x y z of None \<Rightarrow> False | Some cell \<Rightarrow> cell > 0)"

definition isLive :: "CellGrid \<Rightarrow> int \<Rightarrow> int \<Rightarrow> int \<Rightarrow> bool" where
  "isLive g x y z = (case getCell g x y z of None \<Rightarrow> False | Some cell \<Rightarrow> cell = states g - 1)"

text \<open>The three nested loops of \<open>neighbourPop\<close>, then the correction for the cell itself.\<close>

definition neighbourPop :: "CellGrid \<Rightarrow> int \<Rightarrow> int \<Rightarrow> int \<Rightarrow> int" where
  "neighbourPop g x y z =
     (let count =
        fold (\<lambda>i. fold (\<lambda>j. fold (\<lambda>k c. if isLive g i j k then c + 1 else c)
                                 [z - 1..z + 1])
                       [y - 1..y + 1])
             [x - 1..x + 1] 0
      in if isLive g x y z then count - 1 else count)"

section \<open>GridState (grid/gridState.ts)\<close>

record GridState =
  grid :: CellGrid
  oldGrid :: CellGrid
  core :: CellGrid

definition makeFromGrid :: "CellGrid \<Rightarrow> GridState" where
  "makeFromGrid g = \<lparr>grid = g, oldGrid = g, core = g\<rparr>"

text \<open>
  The rule function is called with whatever \<open>getCell\<close> returned (the non-null assertion
  \<open>!\<close> is erased at run time), so its first argument is an \<open>option\<close>.
\<close>

type_synonym rule = "int option \<Rightarrow> int \<Rightarrow> int"

text \<open>
  One pass of the loop body of \<open>makeUpdated\<close> on the pair \<open>(newCells, newCore)\<close>. The
  test \<open>newCells[index] > 0\<close> reads back the value just written.
\<close>

definition update_cell ::
    "rule \<Rightarrow> CellGrid \<Rightarrow> int \<times> int \<times> int \<Rightarrow> int jsarray \<times> int jsarray \<Rightarrow> int jsarray \<times> int jsarray" where
  "update_cell rules og c acc =
     (case c of (x, y, z) \<Rightarrow>
      case acc of (newCells, newCore) \<Rightarrow>
        (let index = indexOf (dims og) x y z;
             v = rules (getCell og x y z) (neighbourPop og x y z);
             newCells' = js_set newCells index v
         in if v > 0 \<and> isVisible og x y z then (newCells', js_set newCore index 1)
            else (newCells', newCore)))"

text \<open>
  \<open>makeUpdated\<close>. The core grid is built without a \<open>states\<close> argument and takes the
  default 2. The two non-null assertions \<open>!\<close> on \<open>makeFromCells\<close> are erased at run time:
  where \<open>makeFromCells\<close> gives \<open>null\<close> nothing is thrown and the constructor stores the
  \<open>null\<close>. Both arrays start with the same length and every write to \<open>newCore\<close> follows a
  write to \<open>newCells\<close> at the same index, so \<open>newCore\<close> has a wrong length only if
  \<open>newCells\<close> has one: the object returned then has a \<open>null\<close> grid, and the outcome is
  \<open>NullGridState\<close>.
\<close>

definition makeUpdated :: "GridState \<Rightarrow> rule \<Rightarrow> error + GridState" where
  "makeUpdated oldState rules =
     (let og = grid oldState; d = dims og; n = 8 * X d * Y d * Z d in
      case Array_new n of
        Inl e \<Rightarrow> Inl e
      | Inr cells0 \<Rightarrow>
         (case Array_new n of
            Inl e \<Rightarrow> Inl e
          | Inr core0 \<Rightarrow>
             (case fold (update_cell rules og) (coords d) (cells0, core0) of
                (newCells, newCore) \<Rightarrow>
                  (case makeFromCells d newCells (states og) of
                     None \<Rightarrow> Inl NullGridState
                   | Some g \<Rightarrow>
                      (case makeFromCells d newCore 2 of
                         None \<Rightarrow> Inl NullGridState
                       | Some c \<Rightarrow> Inr \<lparr>grid = g, oldGrid = og, core = c\<rparr>)))))"

text \<open>
  \<open>for (let _ in { length: iterations })\<close> visits the enumerable property names of the
  object literal. An object literal is modelled as the association list of its own
  properties. A pass of the loop on an object with a \<open>null\<close> grid throws a \<open>TypeError\<close>
  (\<open>oldGrid.dims\<close> in \<open>makeUpdated\<close>).
\<close>

definition for_in_keys :: "(string \<times> 'v) list \<Rightarrow> string list" where
  "for_in_keys obj = remdups (map fst obj)"

definition skipUpdates :: "GridState \<Rightarrow> rule \<Rightarrow> int \<Rightarrow> error + GridState" where
  "skipUpdates initState rules iterations =
     fold (\<lambda>_ currentState.
             case currentState of
               Inl e \<Rightarrow> (if e = NullGridState then Inl TypeError else Inl e)
             | Inr s \<Rightarrow> makeUpdated s rules)
          (for_in_keys [(''length'', iterations)]) (Inr initState)"

section \<open>Utils (utils.ts)\<close>

type_synonym vec3 = "real \<times> real \<times> real"
type_synonym vec4 = "real \<times> real \<times> real \<times> real"

definition clamp :: "real \<Rightarrow> real \<Rightarrow> real \<Rightarrow> real" where
  "clamp val mn mx = min (max val mn) mx"

definition smoothStep :: "real \<Rightarrow> real" where
  "smoothStep control = (let c = clamp control 0 1 in clamp (c * c * (3 - 2 * c)) 0 1)"

definition mix :: "real \<Rightarrow> real \<Rightarrow> real \<Rightarrow> real" where
  "mix a b control = control * b + (1 - control) * a"

definition mix3 :: "vec3 \<Rightarrow> vec3 \<Rightarrow> real \<Rightarrow> vec3" where
  "mix3 a b control =
     (case a of (a0, a1, a2) \<Rightarrow>
      case b of (b0, b1, b2) \<Rightarrow>
        (mix a0 b0 (smoothStep control),
         mix a1 b1 (smoothStep control),
         mix a2 b2 (smoothStep control)))"

definition mix4 :: "vec4 \<Rightarrow> vec4 \<Rightarrow> real \<Rightarrow> vec4" where
  "mix4 a b control =
     (case a of (a0, a1, a2, a3) \<Rightarrow>
      case b of (b0, b1, b2, b3) \<Rightarrow>
        (mix a0 b0 (smoothStep control),
         mix a1 b1 (smoothStep control),
         mix a2 b2 (smoothStep control),
         mix a3 b3 (smoothStep control)))"

section \<open>Face (mesh/face.ts)\<close>

datatype SIDE = XNEG | YPOS | ZNEG

definition SIDES :: "SIDE list" where
  "SIDES = [XNEG, YPOS, ZNEG]"

fun directions :: "SIDE \<Rightarrow> int \<times> int \<times> int" where
  "directions XNEG = (-1, 0, 0)"
| "directions YPOS = (0, 1, 0)"
| "directions ZNEG = (0, 0, -1)"

record Face =
  face_x :: int
  face_y :: int
  face_z :: int
  side :: SIDE
  aos :: vec4

definition makeAllPos :: "int \<Rightarrow> int \<Rightarrow> int \<Rightarrow> vec4 \<Rightarrow> Face list" where
  "makeAllPos x y z a =
     map (\<lambda>s. \<lparr>face_x = x, face_y = y, face_z = z, side = s, aos = a\<rparr>) SIDES"

definition vertexAO :: "bool \<Rightarrow> bool \<Rightarrow> bool \<Rightarrow> real" where
  "vertexAO side1 side2 corner =
     (if side1 \<and> side2 then 0.25
      else if side1 \<and> corner \<or> side2 \<and> corner then 0.5
      else if side1 \<or> side2 \<or> corner then 0.75
      else 1.0)"

definition sideAOs :: "bool list \<Rightarrow> vec4" where
  "sideAOs adj =
     (if length adj \<noteq> 8 then (1, 1, 1, 1)
      else (vertexAO (adj ! 0) (adj ! 2) (adj ! 1),
            vertexAO (adj ! 2) (adj ! 4) (adj ! 3),
            vertexAO (adj ! 0) (adj ! 6) (adj ! 7),
            vertexAO (adj ! 4) (adj ! 6) (adj ! 5)))"

fun faceAOs :: "CellGrid \<Rightarrow> int \<Rightarrow> int \<Rightarrow> int \<Rightarrow> SIDE \<Rightarrow> vec4" where
  "faceAOs cellGrid x y z XNEG =
     sideAOs [
       isVisible cellGrid (x - 1) y (z + 1),
       isVisible cellGrid (x - 1) (y - 1) (z + 1),
       isVisible cellGrid (x - 1) (y - 1) z,
       isVisible cellGrid (x - 1) (y - 1) (z - 1),
       isVisible cellGrid (x - 1) y (z - 1),
       isVisible cellGrid (x - 1) (y + 1) (z - 1),
       isVisible cellGrid (x - 1) (y + 1) z,
       isVisible cellGrid (x - 1) (y + 1) (z + 1)]"
| "faceAOs cellGrid x y z YPOS =
     sideAOs [
       isVisible cellGrid x (y + 1) (z + 1),
       isVisible cellGrid (x - 1) (y + 1) (z + 1),
       isVisible cellGrid (x - 1) (y + 1) z,
       isVisible cellGrid (x - 1) (y + 1) (z - 1),
       isVisible cellGrid x (y + 1) (z - 1),
       isVisible cellGrid (x + 1) (y + 1) (z - 1),
       isVisible cellGrid (x + 1) (y + 1) z,
       isVisible cellGrid (x + 1) (y + 1) (z + 1)]"
| "faceAOs cellGrid x y z ZNEG =
     sideAOs [
       isVisible cellGrid (x - 1) y (z - 1),
       isVisible cellGrid (x - 1) (y - 1) (z - 1),
       isVisible cellGrid x (y - 1) (z - 1),
       isVisible cellGrid (x + 1) (y - 1) (z - 1),
       isVisible cellGrid (x + 1) y (z - 1),
       isVisible cellGrid (x + 1) (y + 1) (z - 1),
       isVisible cellGrid x (y + 1) (z - 1),
       isVisible cellGrid (x - 1) (y + 1) (z - 1)]"

text \<open>\<open>Face.makeFromCell(cellGrid, x, y, z, aoGrid)\<close>: culling by \<open>cellGrid\<close>, AO by \<open>aoGrid\<close>.\<close>

definition Face_makeFromCell :: "CellGrid \<Rightarrow> int \<Rightarrow> int \<Rightarrow> int \<Rightarrow> CellGrid \<Rightarrow> Face list" where
  "Face_makeFromCell cellGrid x y z aoGrid =
     (if \<not> isVisible cellGrid x y z then []
      else
        (let visSides =
               filter (\<lambda>s. case directions s of (dx, dy, dz) \<Rightarrow>
                              \<not> isVisible cellGrid (x + dx) (y + dy) (z + dz)) SIDES
         in map (\<lambda>s. \<lparr>face_x = x, face_y = y, face_z = z, side = s,
                       aos = faceAOs aoGrid x y z s\<rparr>) visSides))"

definition makeAllFromCell :: "int \<Rightarrow> int \<Rightarrow> int \<Rightarrow> CellGrid \<Rightarrow> Face list" where
  "makeAllFromCell x y z aoGrid =
     map (\<lambda>s. \<lparr>face_x = x, face_y = y, face_z = z, side = s,
                aos = faceAOs aoGrid x y z s\<rparr>) SIDES"

fun relPositions :: "SIDE \<Rightarrow> vec3 list" where
  "relPositions XNEG = [(0, 0, 1), (0, 0, 0), (0, 1, 1), (0, 1, 0)]"
| "relPositions YPOS = [(0, 1, 1), (0, 1, 0), (1, 1, 1), (1, 1, 0)]"
| "relPositions ZNEG = [(0, 0, 0), (1, 0, 0), (0, 1, 0), (1, 1, 0)]"

definition Face_getVertices :: "Face \<Rightarrow> real \<Rightarrow> vec3 list" where
  "Face_getVertices f scale =
     map (\<lambda>(x, y, z). (scale * (x - 0.5) + of_int (face_x f),
                        scale * (y - 0.5) + of_int (face_y f),
                        scale * (z - 0.5) + of_int (face_z f)))
         (relPositions (side f))"

definition Face_getIndices :: "Face \<Rightarrow> int \<Rightarrow> int list" where
  "Face_getIndices f offset =
     (case aos f of (a0, a1, a2, a3) \<Rightarrow>
        if a1 + a2 > a0 + a3
        then [offset, offset + 1, offset + 2, offset + 1, offset + 2, offset + 3]
        else [offset, offset + 3, offset + 1, offset, offset + 2, offset + 3])"

definition Face_getNorm :: "Face \<Rightarrow> vec3" where
  "Face_getNorm f = (case directions (side f) of (dx, dy, dz) \<Rightarrow> (of_int dx, of_int dy, of_int dz))"

section \<open>AnimFace (src/mesh/animFace.ts)\<close>

datatype AnimType = GROW | SHRINK | TRANSITION | AO_ONLY

text \<open>The fields \<open>start\<close>, \<open>end\<close> and \<open>type\<close>; \<open>None\<close> is \<open>null\<close> (or \<open>undefined\<close>).\<close>

record AnimFace =
  af_start :: "Face option"
  af_end :: "Face option"
  af_type :: AnimType

definition makeGrowing :: "Face \<Rightarrow> AnimFace" where
  "makeGrowing e = \<lparr>af_start = None, af_end = Some e, af_type = GROW\<rparr>"

definition makeShrinking :: "Face \<Rightarrow> AnimFace" where
  "makeShrinking s = \<lparr>af_start = Some s, af_end = None, af_type = SHRINK\<rparr>"

text \<open>
  \<open>makeTransition\<close> stores what it is given. Its caller passes \<open>endFaces[i]\<close>, which is
  \<open>undefined\<close> when \<open>i\<close> is past the end of \<open>endFaces\<close>, so the end face is an \<open>option\<close>.
\<close>

definition makeTransition :: "Face \<Rightarrow> Face option \<Rightarrow> AnimType \<Rightarrow> AnimFace" where
  "makeTransition s e ty = \<lparr>af_start = Some s, af_end = e, af_type = ty\<rparr>"

text \<open>\<open>xs[i]\<close> on a dense array, for the index that \<open>map\<close> passes to its callback.\<close>

definition nth_opt :: "'a list \<Rightarrow> nat \<Rightarrow> 'a option" where
  "nth_opt xs i = (if i < length xs then Some (xs ! i) else None)"

definition AnimFace_makeFromCell :: "GridState \<Rightarrow> int \<Rightarrow> int \<Rightarrow> int \<Rightarrow> AnimFace list" where
  "AnimFace_makeFromCell st x y z =
     (let cellStart = isVisible (oldGrid st) x y z;
          cellEnd = isVisible (grid st) x y z
      in if \<not> cellStart \<and> \<not> cellEnd then []
         else if \<not> cellStart then map makeGrowing (makeAllFromCell x y z (grid st))
         else if \<not> cellEnd then map makeShrinking (makeAllFromCell x y z (oldGrid st))
         else
           (let startFaces = Face_makeFromCell (core st) x y z (oldGrid st);
                endFaces = Face_makeFromCell (core st) x y z (grid st)
            in map (\<lambda>(i, s). makeTransition s (nth_opt endFaces i) AO_ONLY)
                   (enumerate 0 startFaces)))"

definition makeFromGridState :: "GridState \<Rightarrow> AnimFace list" where
  "makeFromGridState st =
     fold (\<lambda>c faces. case c of (x, y, z) \<Rightarrow> faces @ AnimFace_makeFromCell st x y z)
          (coords (dims (grid st))) []"

text \<open>
  The accessors dereference \<open>this.start!\<close> and \<open>this.end!\<close>; on \<open>null\<close> the member access
  throws a \<open>TypeError\<close>.
\<close>

definition AnimFace_getVertices :: "AnimFace \<Rightarrow> real \<Rightarrow> error + vec3 list" where
  "AnimFace_getVertices a progress =
     (case af_type a of
        GROW \<Rightarrow>
          (case af_end a of
             None \<Rightarrow> Inl TypeError
           | Some e \<Rightarrow>
               Inr (Face_getVertices e
                      (mix (1 - cos (10 * progress * progress)) 1 (smoothStep progress))))
      | SHRINK \<Rightarrow>
          (case af_start a of
             None \<Rightarrow> Inl TypeError
           | Some s \<Rightarrow> Inr (Face_getVertices s (1.0 - smoothStep (2 * progress))))
      | TRANSITION \<Rightarrow>
          (case af_end a of
             None \<Rightarrow> Inl TypeError
           | Some e \<Rightarrow>
              (let endVerts = Face_getVertices e 1.0 in
               case af_start a of
                 None \<Rightarrow> Inl TypeError
               | Some s \<Rightarrow>
                  (case those (map (\<lambda>(i, vert).
                                 map_option (\<lambda>ev. mix3 vert ev (smoothStep progress))
                                            (nth_opt endVerts i))
                               (enumerate 0 (Face_getVertices s 1.0))) of
                     None \<Rightarrow> Inl TypeError
                   | Some vs \<Rightarrow> Inr vs)))
      | AO_ONLY \<Rightarrow>
          (case af_start a of
             None \<Rightarrow> Inl TypeError
           | Some s \<Rightarrow> Inr (Face_getVertices s 1.0)))"

definition AnimFace_getNorm :: "AnimFace \<Rightarrow> real \<Rightarrow> error + vec3" where
  "AnimFace_getNorm a progress =
     (case af_type a of
        GROW \<Rightarrow> (case af_end a of None \<Rightarrow> Inl TypeError | Some e \<Rightarrow> Inr (Face_getNorm e))
      | SHRINK \<Rightarrow> (case af_start a of None \<Rightarrow> Inl TypeError | Some s \<Rightarrow> Inr (Face_getNorm s))
      | TRANSITION \<Rightarrow>
          (case af_start a of
             None \<Rightarrow> Inl TypeError
           | Some s \<Rightarrow>
              (case af_end a of
                 None \<Rightarrow> Inl TypeError
               | Some e \<Rightarrow> Inr (mix3 (Face_getNorm s) (Face_getNorm e) (smoothStep progress))))
      | AO_ONLY \<Rightarrow> (case af_start a of None \<Rightarrow> Inl TypeError | Some s \<Rightarrow> Inr (Face_getNorm s)))"

definition AnimFace_getIndices :: "AnimFace \<Rightarrow> int \<Rightarrow> error + int list" where
  "AnimFace_getIndices a offset =
     (if af_type a = GROW
      then (case af_end a of None \<Rightarrow> Inl TypeError | Some e \<Rightarrow> Inr (Face_getIndices e offset))
      else (case af_start a of None \<Rightarrow> Inl TypeError | Some s \<Rightarrow> Inr (Face_getIndices s offset)))"

definition AnimFace_getAOs :: "AnimFace \<Rightarrow> real \<Rightarrow> error + vec4" where
  "AnimFace_getAOs a progress =
     (let control = smoothStep progress in
      case af_type a of
        GROW \<Rightarrow>
          (case af_end a of
             None \<Rightarrow> Inl TypeError
           | Some e \<Rightarrow> Inr (mix4 (1.0, 1.0, 1.0, 1.0) (aos e) control))
      | SHRINK \<Rightarrow>
          (case af_start a of
             None \<Rightarrow> Inl TypeError
           | Some s \<Rightarrow> Inr (mix4 (aos s) (1.0, 1.0, 1.0, 1.0) control))
      | TRANSITION \<Rightarrow>
          (case af_start a of
             None \<Rightarrow> Inl TypeError
           | Some s \<Rightarrow>
              (case af_end a of
                 None \<Rightarrow> Inl TypeError
               | Some e \<Rightarrow> Inr (mix4 (aos s) (aos e) control)))
      | AO_ONLY \<Rightarrow>
          (case af_start a of
             None \<Rightarrow> Inl TypeError
           | Some s \<Rightarrow>
              (case af_end a of
                 None \<Rightarrow> Inl TypeError
               | Some e \<Rightarrow> Inr (mix4 (aos s) (aos e) control))))"

section \<open>Notions used in the statements\<close>

text \<open>The 26 offsets of the cube neighbourhood, and the positions they lead to.\<close>

definition offsets26 :: "(int \<times> int \<times> int) list" where
  "offsets26 = filter (\<lambda>p. p \<noteq> (0, 0, 0))
     (concat (map (\<lambda>a. concat (map (\<lambda>b. map (\<lambda>c. (a, b, c)) [-1, 0, 1]) [-1, 0, 1])) [-1, 0, 1]))"

definition neighbours26 :: "int \<Rightarrow> int \<Rightarrow> int \<Rightarrow> (int \<times> int \<times> int) list" where
  "neighbours26 x y z = map (\<lambda>(a, b, c). (x + a, y + b, z + c)) offsets26"

definition chebyshev :: "int \<times> int \<times> int \<Rightarrow> int \<times> int \<times> int \<Rightarrow> int" where
  "chebyshev p q = (case p of (a, b, c) \<Rightarrow> case q of (x, y, z) \<Rightarrow>
      max (max \<bar>a - x\<bar> \<bar>b - y\<bar>) \<bar>c - z\<bar>)"

text \<open>
  The half-open cuboid \<open>[-X, X) \<times> [-Y, Y) \<times> [-Z, Z)\<close>: the coordinates that the iterator
  visits and that the flat array of \<open>8 * X * Y * Z\<close> cells has a slot for.
\<close>

definition inCuboid :: "GridDimensions \<Rightarrow> int \<Rightarrow> int \<Rightarrow> int \<Rightarrow> bool" where
  "inCuboid d x y z \<longleftrightarrow>
     - X d \<le> x \<and> x < X d \<and> - Y d \<le> y \<and> y < Y d \<and> - Z d \<le> z \<and> z < Z d"

text \<open>
  The cell stored for \<open>(x, y, z)\<close> holds the live value \<open>states - 1\<close> and no other slot
  of the array does.
\<close>

definition only_live_at :: "CellGrid \<Rightarrow> int \<Rightarrow> int \<Rightarrow> int \<Rightarrow> bool" where
  "only_live_at g x y z \<longleftrightarrow>
     js_get (cells g) (indexOf (dims g) x y z) = Some (states g - 1) \<and>
     list_all (\<lambda>i. cells g ! i = Some (states g - 1) \<longrightarrow> int i = indexOf (dims g) x y z)
              [0..<length (cells g)]"

text \<open>Lexicographic order on coordinates: the order in which the iterator visits them.\<close>

definition lex_le :: "int \<times> int \<times> int \<Rightarrow> int \<times> int \<times> int \<Rightarrow> bool" where
  "lex_le p q = (case p of (i, j, k) \<Rightarrow> case q of (x, y, z) \<Rightarrow>
      i < x \<or> (i = x \<and> (j < y \<or> (j = y \<and> k \<le> z))))"

text \<open>
  What \<open>makeUpdated\<close> computes for one coordinate: the value the rule returns, whether
  the coordinate belongs to the core, and the array slot of the coordinate.
\<close>

definition new_value :: "rule \<Rightarrow> CellGrid \<Rightarrow> int \<times> int \<times> int \<Rightarrow> int" where
  "new_value rules og p = (case p of (x, y, z) \<Rightarrow> rules (getCell og x y z) (neighbourPop og x y z))"

definition in_core :: "rule \<Rightarrow> CellGrid \<Rightarrow> int \<times> int \<times> int \<Rightarrow> bool" where
  "in_core rules og p = (case p of (x, y, z) \<Rightarrow> new_value rules og p > 0 \<and> isVisible og x y z)"

definition slot :: "GridDimensions \<Rightarrow> int \<times> int \<times> int \<Rightarrow> nat" where
  "slot d p = (case p of (x, y, z) \<Rightarrow> nat (indexOf d x y z))"

definition cub :: "GridDimensions \<Rightarrow> int \<times> int \<times> int \<Rightarrow> bool" where
  "cub d p = (case p of (x, y, z) \<Rightarrow> inCuboid d x y z)"

text \<open>
  The orientations that culling against a grid keeps for a cell: none when the cell is not
  visible in that grid, else those whose outward neighbour is not visible in it.
\<close>

definition culled_sides :: "CellGrid \<Rightarrow> int \<Rightarrow> int \<Rightarrow> int \<Rightarrow> SIDE list" where
  "culled_sides g x y z =
     filter (\<lambda>s. isVisible g x y z \<and>
                  \<not> isVisible g (x + fst (directions s)) (y + fst (snd (directions s)))
                                (z + snd (snd (directions s))))
            [XNEG, YPOS, ZNEG]"

text \<open>The face of a cell for one orientation, with its AO values taken from \<open>aoGrid\<close>.\<close>

definition face_at :: "CellGrid \<Rightarrow> int \<Rightarrow> int \<Rightarrow> int \<Rightarrow> SIDE \<Rightarrow> Face" where
  "face_at aoGrid x y z s =
     \<lparr>face_x = x, face_y = y, face_z = z, side = s, aos = faceAOs aoGrid x y z s\<rparr>"

text \<open>The endpoints that the accessors of an \<open>AnimFace\<close> dereference for its type.\<close>

definition endpoints_present :: "AnimFace \<Rightarrow> bool" where
  "endpoints_present a =
     (case af_type a of
        GROW \<Rightarrow> af_end a \<noteq> None
      | SHRINK \<Rightarrow> af_start a \<noteq> None
      | TRANSITION \<Rightarrow> af_start a \<noteq> None \<and> af_end a \<noteq> None
      | AO_ONLY \<Rightarrow> af_start a \<noteq> None \<and> af_end a \<noteq> None)"

text \<open>A call returns a value of its declared type.\<close>

definition returns :: "error + 'a \<Rightarrow> bool" where
  "returns r = (case r of Inl _ \<Rightarrow> False | Inr _ \<Rightarrow> True)"

section \<open>Example inputs\<close>

definition d111 :: GridDimensions where
  "d111 = \<lparr>X = 1, Y = 1, Z = 1\<rparr>"

text \<open>Half-extents \<open>(1, 1, 1)\<close>, two states, the only live cell at \<open>(0, 0, 0)\<close> (index 7).\<close>

definition centre_grid :: CellGrid where
  "centre_grid = \<lparr>dims = d111,
     cells = [Some 0, Some 0, Some 0, Some 0, Some 0, Some 0, Some 0, Some 1], states = 2\<rparr>"

definition centre_state :: GridState where
  "centre_state = makeFromGrid centre_grid"

text \<open>The rule of \<open>main.ts\<close>; \<open>!current\<close> is true for 0 and for \<open>undefined\<close>.\<close>

definition main_rules :: rule where
  "main_rules current neighbours =
     (if ((case current of None \<Rightarrow> False | Some c \<Rightarrow> c > 0) \<and> neighbours \<ge> 5 \<and> neighbours \<le> 7)
         \<or> ((case current of None \<Rightarrow> True | Some c \<Rightarrow> c = 0) \<and> neighbours = 1)
      then 1 else 0)"

text \<open>The rule "stay live if \<open>current > 0\<close>".\<close>

definition keep_rules :: rule where
  "keep_rules current neighbours = (case current of None \<Rightarrow> 0 | Some c \<Rightarrow> if c > 0 then 1 else 0)"

text \<open>The states after one, two and three updates of \<open>centre_state\<close> by \<open>main_rules\<close>.\<close>

definition after_main :: GridState where
  "after_main = \<lparr>grid = \<lparr>dims = d111, cells = [Some 1, Some 1, Some 1, Some 1, Some 1, Some 1, Some 1, Some 0], states = 2\<rparr>,
      oldGrid = centre_grid,
      core = \<lparr>dims = d111, cells = [None, None, None, None, None, None, None, None], states = 2\<rparr>\<rparr>"

definition after_main2 :: GridState where
  "after_main2 = \<lparr>grid = \<lparr>dims = d111, cells = [Some 1, Some 0, Some 1, Some 0, Some 1, Some 0, Some 1, Some 0], states = 2\<rparr>,
      oldGrid = \<lparr>dims = d111, cells = [Some 1, Some 1, Some 1, Some 1, Some 1, Some 1, Some 1, Some 0], states = 2\<rparr>,
      core = \<lparr>dims = d111, cells = [Some 1, None, Some 1, None, Some 1, None, Some 1, None], states = 2\<rparr>\<rparr>"

definition after_main3 :: GridState where
  "after_main3 = \<lparr>grid = \<lparr>dims = d111, cells = [Some 0, Some 0, Some 0, Some 0, Some 0, Some 0, Some 0, Some 0], states = 2\<rparr>,
      oldGrid = \<lparr>dims = d111, cells = [Some 1, Some 0, Some 1, Some 0, Some 1, Some 0, Some 1, Some 0], states = 2\<rparr>,
      core = \<lparr>dims = d111, cells = [None, None, None, None, None, None, None, None], states = 2\<rparr>\<rparr>"

text \<open>The state after one update of \<open>centre_state\<close> by \<open>keep_rules\<close>.\<close>

definition after_keep :: GridState where
  "after_keep = \<lparr>grid = centre_grid, oldGrid = centre_grid,
      core = \<lparr>dims = d111, cells = [None, None, None, None, None, None, None, Some 1], states = 2\<rparr>\<rparr>"

text \<open>
  The second face that \<open>AnimFace.makeFromCell\<close> makes for the cell \<open>(-1, -1, -1)\<close> of
  \<open>after_main\<close>: the cell appears, the face is the \<open>YPOS\<close> one.
\<close>

definition grow_face :: AnimFace where
  "grow_face = \<lparr>af_start = None,
      af_end = Some \<lparr>face_x = -1, face_y = -1, face_z = -1, side = YPOS, aos = (3/4, 1, 1/4, 3/4)\<rparr>,
      af_type = GROW\<rparr>"

section \<open>Flat indexing\<close>

lemma radix_unique:
  fixes q r q' r' A :: int
  assumes "0 \<le> r" "r < A" "0 \<le> r'" "r' < A" "q * A + r = q' * A + r'"
  shows "q = q' \<and> r = r'"
proof -
  have "q = (q * A + r) div A"
    using assms(1,2) by simp
  also have "\<dots> = (q' * A + r') div A"
    by (simp only: assms(5))
  also have "\<dots> = q'"
    using assms(3,4) by simp
  finally have "q = q'" .
  with assms(5) show ?thesis by simp
qed

lemma radix_bound:
  fixes q r A B :: int
  assumes "0 \<le> q" "q < B" "0 \<le> r" "r < A"
  shows "0 \<le> q * A + r \<and> q * A + r < B * A"
proof -
  have "0 < A" using assms by simp
  have "(q + 1) * A \<le> B * A"
    using assms \<open>0 < A\<close> by (intro mult_right_mono) simp_all
  then have "q * A + A \<le> B * A"
    by (simp add: algebra_simps)
  moreover have "0 \<le> q * A" using assms \<open>0 < A\<close> by simp
  ultimately show ?thesis using assms(3,4) by linarith
qed

lemma indexOf_radix:
  "indexOf d x y z = ((x + X d) * (2 * Y d) + (y + Y d)) * (2 * Z d) + (z + Z d)"
  by (simp add: indexOf_def algebra_simps)

lemma indexOf_inj:
  assumes "inCuboid d x y z" "inCuboid d x' y' z'" "indexOf d x y z = indexOf d x' y' z'"
  shows "x = x' \<and> y = y' \<and> z = z'"
proof -
  from assms have a: "0 \<le> z + Z d" "z + Z d < 2 * Z d" "0 \<le> z' + Z d" "z' + Z d < 2 * Z d"
    and b: "0 \<le> y + Y d" "y + Y d < 2 * Y d" "0 \<le> y' + Y d" "y' + Y d < 2 * Y d"
    by (simp_all add: inCuboid_def)
  from radix_unique [OF a assms(3) [unfolded indexOf_radix]]
  have z: "z = z'" and q: "(x + X d) * (2 * Y d) + (y + Y d) = (x' + X d) * (2 * Y d) + (y' + Y d)"
    by simp_all
  from radix_unique [OF b q] z show ?thesis by simp
qed

lemma indexOf_range:
  assumes "inCuboid d x y z"
  shows "0 \<le> indexOf d x y z \<and> indexOf d x y z < 8 * X d * Y d * Z d"
proof -
  from assms have a: "0 \<le> z + Z d" "z + Z d < 2 * Z d"
    and b: "0 \<le> y + Y d" "y + Y d < 2 * Y d" and c: "0 \<le> x + X d" "x + X d < 2 * X d"
    by (simp_all add: inCuboid_def)
  from radix_bound [OF c b] have q: "0 \<le> (x + X d) * (2 * Y d) + (y + Y d)"
     "(x + X d) * (2 * Y d) + (y + Y d) < 2 * X d * (2 * Y d)" by simp_all
  from radix_bound [OF q a] show ?thesis
    unfolding indexOf_radix by (simp add: algebra_simps)
qed

text \<open>
  C5. The claim: for positive half-extents, \<open>indexOf\<close> is a bijection between the triples
  accepted by \<open>inBounds\<close> and the range \<open>[0, 8 * X * Y * Z)\<close>. The code accepts \<open>z = Z\<close>
  (\<open>z <= this.Z\<close>): with half-extents \<open>(1, 1, 1)\<close> the accepted triple \<open>(0, 0, 1)\<close> has index
  8, outside \<open>[0, 8)\<close>, and the accepted triples \<open>(-1, -1, 1)\<close> and \<open>(-1, 0, -1)\<close> share
  index 2. On the half-open cuboid the map is injective and lands in the range
  (\<open>indexOf_inj\<close>, \<open>indexOf_range\<close>).
\<close>

theorem inBounds_indexOf_not_bijective:
  "inBounds d111 0 0 1 \<and> indexOf d111 0 0 1 = 8 \<and> 8 * X d111 * Y d111 * Z d111 = 8
   \<and> inBounds d111 (-1) (-1) 1 \<and> inBounds d111 (-1) 0 (-1)
   \<and> indexOf d111 (-1) (-1) 1 = indexOf d111 (-1) 0 (-1)"
  by (simp add: inBounds_def indexOf_def d111_def)

section \<open>Constructors of CellGrid\<close>

text \<open>
  C6. \<open>makeFromCells\<close> returns a grid exactly when the array has \<open>8 * X * Y * Z\<close> cells;
  the grid it returns holds the supplied array, dimensions and state count, and building
  a grid again from these gives the same grid. So does building a grid again from the
  dimensions, cells and state count of any grid \<open>g0\<close> whose array has the length that its
  dimensions ask for.
\<close>

theorem makeFromCells_roundtrip:
  "(makeFromCells d cs st \<noteq> None \<longleftrightarrow> int (length cs) = 8 * X d * Y d * Z d)
   \<and> (\<forall>g. makeFromCells d cs st = Some g \<longrightarrow>
         cells g = cs \<and> dims g = d \<and> states g = st
         \<and> makeFromCells (dims g) (cells g) (states g) = Some g)
   \<and> (int (length (cells g0)) = 8 * X (dims g0) * Y (dims g0) * Z (dims g0) \<longrightarrow>
         makeFromCells (dims g0) (cells g0) (states g0) = Some g0)"
  by (auto simp: makeFromCells_def)

theorem makeFromCells_roundtrip_witness:
  "makeFromCells d111 (replicate 8 (Some 0)) 2
     = Some \<lparr>dims = d111, cells = replicate 8 (Some 0), states = 2\<rparr>
   \<and> makeFromCells d111 (replicate 7 (Some 0)) 2 = None
   \<and> makeFromCells (dims centre_grid) (cells centre_grid) (states centre_grid) = Some centre_grid"
proof -
  have l: "int (length (replicate 8 (Some (0::int)))) = 8 * X d111 * Y d111 * Z d111"
    "int (length (replicate 7 (Some (0::int)))) \<noteq> 8 * X d111 * Y d111 * Z d111"
    "int (length (cells centre_grid))
       = 8 * X (dims centre_grid) * Y (dims centre_grid) * Z (dims centre_grid)"
    by (simp_all add: d111_def centre_grid_def)
  from makeFromCells_roundtrip [of d111 "replicate 8 (Some 0)" 2] l(1)
  obtain g where g: "makeFromCells d111 (replicate 8 (Some 0)) 2 = Some g"
    "cells g = replicate 8 (Some 0)" "dims g = d111" "states g = 2"
    by auto
  then have "g = \<lparr>dims = d111, cells = replicate 8 (Some 0), states = 2\<rparr>"
    by (cases g) simp
  with g(1) have "makeFromCells d111 (replicate 8 (Some 0)) 2
     = Some \<lparr>dims = d111, cells = replicate 8 (Some 0), states = 2\<rparr>"
    by simp
  moreover from makeFromCells_roundtrip [of d111 "replicate 7 (Some 0)" 2] l(2)
  have "makeFromCells d111 (replicate 7 (Some 0)) 2 = None"
    by blast
  moreover from makeFromCells_roundtrip [of _ _ _ centre_grid] l(3)
  have "makeFromCells (dims centre_grid) (cells centre_grid) (states centre_grid) = Some centre_grid"
    by blast
  ultimately show ?thesis by blast
qed

text \<open>
  What \<open>makeEmpty\<close> and \<open>makeFull\<close> return for an array length within the limit: \<open>makeFull\<close>
  fills with 1 whatever the state count is.
\<close>

lemma makeEmpty_cells:
  assumes "0 \<le> 8 * X d * Y d * Z d" "8 * X d * Y d * Z d < 2 ^ 32"
  shows "makeEmpty d st
           = Inr \<lparr>dims = d, cells = replicate (nat (8 * X d * Y d * Z d)) (Some 0), states = st\<rparr>"
  using assms by (simp add: makeEmpty_def Array_new_def fill_def)

lemma makeFull_cells:
  assumes "0 \<le> 8 * X d * Y d * Z d" "8 * X d * Y d * Z d < 2 ^ 32"
  shows "makeFull d st
           = Inr \<lparr>dims = d, cells = replicate (nat (8 * X d * Y d * Z d)) (Some 1), states = st\<rparr>"
  using assms by (simp add: makeFull_def Array_new_def fill_def)

text \<open>
  C8. The claim: \<open>makeEmpty\<close> gives an all-zero grid and \<open>makeFull(dims, states)\<close> a grid
  whose every cell is \<open>states - 1\<close>. The code fills with the constant 1: for half-extents
  \<open>(1, 1, 1)\<close> and three states every cell of \<open>makeFull\<close> is 1, not 2.
\<close>

theorem makeFull_fills_one:
  "makeFull d111 3 = Inr \<lparr>dims = d111, cells = replicate 8 (Some 1), states = 3\<rparr>
   \<and> makeEmpty d111 3 = Inr \<lparr>dims = d111, cells = replicate 8 (Some 0), states = 3\<rparr>"
  by (simp add: makeFull_def makeEmpty_def Array_new_def fill_def d111_def)

lemma getCell_cases:
  "getCell g x y z = Some c \<Longrightarrow> \<exists>i < length (cells g). cells g ! i = Some c"
  by (auto simp: getCell_def js_get_def split: if_splits intro!: exI[of _ "nat (indexOf (dims g) x y z)"])

lemma makeRandom_total:
  assumes "8 * X d * Y d * Z d < 2 ^ 32"
  shows "makeRandom d prob st rnd =
           Inr \<lparr>dims = d,
                 cells = map (\<lambda>i. Some (if rnd i < prob then st - 1 else 0))
                             [0..<nat (8 * X d * Y d * Z d)],
                 states = 2\<rparr>"
  using assms by (simp add: makeRandom_def Array_from_length_def max_def)

lemma makeRandom_result:
  assumes "makeRandom d prob st rnd = Inr g"
  shows "g = \<lparr>dims = d,
               cells = map (\<lambda>i. Some (if rnd i < prob then st - 1 else 0))
                           [0..<nat (8 * X d * Y d * Z d)],
               states = 2\<rparr>"
proof (cases "8 * X d * Y d * Z d < 2 ^ 32")
  case True
  from makeRandom_total [OF this, of prob st rnd] assms show ?thesis by simp
next
  case False
  then have "makeRandom d prob st rnd = Inl RangeError"
    by (simp add: makeRandom_def Array_from_length_def max_def)
  with assms show ?thesis by simp
qed

text \<open>
  C9. The grid that \<open>makeRandom\<close> returns (it returns one whenever \<open>8 * X * Y * Z\<close> is
  below the array length limit \<open>2^32\<close>) has the \<open>states\<close> field 2 whatever \<open>states\<close>
  argument is given, while its cell \<open>i\<close> is \<open>states - 1\<close> or 0 according to the \<open>i\<close>-th
  random draw; so with a \<open>states\<close> argument above 2 no coordinate of the grid is live.
\<close>

theorem makeRandom_states_default:
  "(8 * X d * Y d * Z d < 2 ^ 32 \<longrightarrow> returns (makeRandom d prob st rnd))
   \<and> (\<forall>g. makeRandom d prob st rnd = Inr g \<longrightarrow>
          states g = 2 \<and> dims g = d
          \<and> cells g = map (\<lambda>i. Some (if rnd i < prob then st - 1 else 0))
                          [0..<nat (8 * X d * Y d * Z d)]
          \<and> (2 < st \<longrightarrow> (\<forall>x y z. \<not> isLive g x y z)))"
proof (intro conjI allI impI)
  assume "8 * X d * Y d * Z d < 2 ^ 32"
  then show "returns (makeRandom d prob st rnd)"
    by (simp add: makeRandom_total returns_def)
next
  fix g assume "makeRandom d prob st rnd = Inr g"
  then have g: "g = \<lparr>dims = d,
               cells = map (\<lambda>i. Some (if rnd i < prob then st - 1 else 0))
                           [0..<nat (8 * X d * Y d * Z d)],
               states = 2\<rparr>"
    by (rule makeRandom_result)
  then show "states g = 2" "dims g = d"
    "cells g = map (\<lambda>i. Some (if rnd i < prob then st - 1 else 0)) [0..<nat (8 * X d * Y d * Z d)]"
    by simp_all
  fix x y z assume st: "2 < st"
  show "\<not> isLive g x y z"
  proof
    assume "isLive g x y z"
    then have "getCell g x y z = Some 1"
      by (auto simp: isLive_def g split: option.splits)
    then obtain i where "i < length (cells g)" "cells g ! i = Some 1"
      using getCell_cases [of g x y z 1] by auto
    with st show False by (auto simp: g split: if_splits)
  qed
qed

theorem makeRandom_states_default_witness:
  "makeRandom d111 (1/2) 3 (\<lambda>i. 0)
     = Inr \<lparr>dims = d111, cells = replicate 8 (Some 2), states = 2\<rparr>
   \<and> returns (makeRandom d111 (1/2) 3 (\<lambda>i. 0))
   \<and> states \<lparr>dims = d111, cells = replicate 8 (Some 2), states = 2\<rparr> = 2
   \<and> \<not> isLive \<lparr>dims = d111, cells = replicate 8 (Some 2), states = 2\<rparr> 0 0 0
   \<and> \<not> isLive \<lparr>dims = d111, cells = replicate 8 (Some 2), states = 2\<rparr> (-1) 0 (-1)"
proof -
  have h: "8 * X d111 * Y d111 * Z d111 < 2 ^ 32" by (simp add: d111_def)
  have m: "makeRandom d111 (1/2) 3 (\<lambda>i. 0)
     = Inr \<lparr>dims = d111, cells = replicate 8 (Some 2), states = 2\<rparr>"
    by code_simp
  note t = makeRandom_states_default [of d111 "1/2" 3 "\<lambda>i. 0"]
  from t h have "returns (makeRandom d111 (1/2) 3 (\<lambda>i. 0))" by blast
  moreover from t m
  have "states \<lparr>dims = d111, cells = replicate 8 (Some 2), states = 2\<rparr> = 2
    \<and> ((2::int) < 3 \<longrightarrow>
         (\<forall>x y z. \<not> isLive \<lparr>dims = d111, cells = replicate 8 (Some 2), states = 2\<rparr> x y z))"
    by blast
  then have "states \<lparr>dims = d111, cells = replicate 8 (Some 2), states = 2\<rparr> = 2"
    "\<not> isLive \<lparr>dims = d111, cells = replicate 8 (Some 2), states = 2\<rparr> 0 0 0"
    "\<not> isLive \<lparr>dims = d111, cells = replicate 8 (Some 2), states = 2\<rparr> (-1) 0 (-1)"
    by simp_all
  ultimately show ?thesis using m by blast
qed

section \<open>Counting neighbours\<close>

lemma upto3: "[x - 1..x + 1] = [x - 1, x, x + (1::int)]"
  by (simp add: upto_rec1)

lemma offsets26_eq: "offsets26 = 
  [(-1,-1,-1),(-1,-1,0),(-1,-1,1),(-1,0,-1),(-1,0,0),(-1,0,1),(-1,1,-1),(-1,1,0),(-1,1,1),
   (0,-1,-1),(0,-1,0),(0,-1,1),(0,0,-1),(0,0,1),(0,1,-1),(0,1,0),(0,1,1),
   (1,-1,-1),(1,-1,0),(1,-1,1),(1,0,-1),(1,0,0),(1,0,1),(1,1,-1),(1,1,0),(1,1,1)]"
  by (simp add: offsets26_def)

lemma distinct_offsets26: "distinct offsets26"
  by (simp add: offsets26_eq)


lemma abs_le_1: "\<bar>a::int\<bar> \<le> 1 \<longleftrightarrow> a = -1 \<or> a = 0 \<or> a = 1"
  by arith

lemma set_triples:
  "set (concat (map (\<lambda>a. concat (map (\<lambda>b. map (\<lambda>c. (a, b, c)) cs) bs)) as))
     = set as \<times> set bs \<times> set cs"
  by auto

lemma mem_offsets26: "(a, b, c) \<in> set offsets26 \<longleftrightarrow>
    (a = -1 \<or> a = 0 \<or> a = 1) \<and> (b = -1 \<or> b = 0 \<or> b = 1) \<and> (c = -1 \<or> c = 0 \<or> c = 1) \<and> (a, b, c) \<noteq> (0, 0, 0)"
proof -
  have "(a, b, c) \<in> set offsets26 \<longleftrightarrow>
     (a, b, c) \<in> set [-1, 0, 1] \<times> set [-1, 0, 1] \<times> set [-1, 0, 1] \<and> (a, b, c) \<noteq> (0, 0, 0)"
    unfolding offsets26_def set_filter set_triples by blast
  also have "\<dots> \<longleftrightarrow> (a = -1 \<or> a = 0 \<or> a = 1) \<and> (b = -1 \<or> b = 0 \<or> b = 1) \<and> (c = -1 \<or> c = 0 \<or> c = 1) \<and> (a, b, c) \<noteq> (0, 0, 0)"
    unfolding mem_Times_iff fst_conv snd_conv
    by (simp only: set_simps insert_iff empty_iff) blast
  finally show ?thesis .
qed

lemma set_offsets26: "(a, b, c) \<in> set offsets26 \<longleftrightarrow> chebyshev (a, b, c) (0, 0, 0) = 1"
proof -
  have "chebyshev (a, b, c) (0, 0, 0) = 1 \<longleftrightarrow>
        \<bar>a\<bar> \<le> 1 \<and> \<bar>b\<bar> \<le> 1 \<and> \<bar>c\<bar> \<le> 1 \<and> (a, b, c) \<noteq> (0, 0, 0)"
    by (auto simp: chebyshev_def max_def)
  also have "\<dots> \<longleftrightarrow> (a, b, c) \<in> set offsets26"
    unfolding abs_le_1 mem_offsets26 ..
  finally show ?thesis by simp
qed
lemma distinct_neighbours26: "distinct (neighbours26 x y z)"
  unfolding neighbours26_def
  by (rule iffD2[OF distinct_map]) (auto simp: distinct_offsets26 inj_on_def)

lemma set_neighbours26: "set (neighbours26 x y z) = {p. chebyshev p (x, y, z) = 1}"
proof -
  have "p \<in> set (neighbours26 x y z) \<longleftrightarrow> chebyshev p (x, y, z) = 1" for p
  proof -
    obtain i j k where p: "p = (i, j, k)" by (cases p) auto
    have "p \<in> set (neighbours26 x y z) \<longleftrightarrow> (i - x, j - y, k - z) \<in> set offsets26"
      unfolding neighbours26_def p by force
    also have "\<dots> \<longleftrightarrow> chebyshev p (x, y, z) = 1"
      unfolding set_offsets26 by (simp add: chebyshev_def p)
    finally show ?thesis .
  qed
  then show ?thesis by auto
qed

lemma length_filter_sum: "int (length (filter P xs)) = sum_list (map (\<lambda>x. of_bool (P x)) xs)"
  by (induction xs) auto

lemma if_inc: "(if b then c + 1 else c) = c + (of_bool b :: int)"
  by simp

lemma if_dec: "(if b then c - 1 else c) = c - (of_bool b :: int)"
  by simp

lemma neighbourPop_filter:
  "neighbourPop g x y z = int (length (filter (\<lambda>(i, j, k). isLive g i j k) (neighbours26 x y z)))"
  unfolding neighbourPop_def Let_def if_inc if_dec upto3 length_filter_sum neighbours26_def offsets26_eq
  by simp

lemma neighbourPop_card:
  "neighbourPop g x y z = int (card {p. chebyshev p (x, y, z) = 1 \<and> (case p of (i, j, k) \<Rightarrow> isLive g i j k)})"
proof -
  have "{p. chebyshev p (x, y, z) = 1 \<and> (case p of (i, j, k) \<Rightarrow> isLive g i j k)}
        = {p. (case p of (i, j, k) \<Rightarrow> isLive g i j k)} \<inter> set (neighbours26 x y z)"
    by (auto simp: set_neighbours26)
  then show ?thesis
    by (simp add: neighbourPop_filter distinct_length_filter [OF distinct_neighbours26])
qed

lemma indexOf_centre:
  assumes "0 < X d" "0 < Y d" "0 < Z d" "inBounds d x y z" "indexOf d x y z = indexOf d 0 0 0"
  shows "x = 0 \<and> y = 0 \<and> z = 0"
proof (cases "z = Z d")
  case True
  have "((x + X d) * (2 * Y d) + (y + Y d) + 1) * (2 * Z d) + 0
         = ((0 + X d) * (2 * Y d) + (0 + Y d)) * (2 * Z d) + (0 + Z d)"
    using assms(5) True unfolding indexOf_radix by (simp add: algebra_simps)
  from radix_unique [OF _ _ _ _ this] assms(3) show ?thesis by simp
next
  case False
  with assms(4) have "inCuboid d x y z" by (simp add: inBounds_def inCuboid_def)
  moreover have "inCuboid d 0 0 0" using assms by (simp add: inCuboid_def)
  ultimately show ?thesis using indexOf_inj assms(5) by blast
qed

lemma isLive_inBounds: "isLive g i j k \<Longrightarrow> inBounds (dims g) i j k"
  by (auto simp: isLive_def getCell_def split: if_splits option.splits)

lemma only_live_at_isLive:
  assumes "0 < X (dims g)" "0 < Y (dims g)" "0 < Z (dims g)" "only_live_at g 0 0 0"
  shows "isLive g i j k \<longleftrightarrow> (i, j, k) = (0, 0, 0)"
proof
  assume l: "isLive g i j k"
  then have ib: "inBounds (dims g) i j k" by (rule isLive_inBounds)
  with l have "js_get (cells g) (indexOf (dims g) i j k) = Some (states g - 1)"
    by (auto simp: isLive_def getCell_def split: option.splits)
  then have "indexOf (dims g) i j k = indexOf (dims g) 0 0 0"
    using assms(4)
    by (auto simp: only_live_at_def js_get_def list_all_iff split: if_splits)
  with indexOf_centre [OF assms(1-3) ib] show "(i, j, k) = (0, 0, 0)" by simp
next
  assume "(i, j, k) = (0, 0, 0)"
  moreover have "inBounds (dims g) 0 0 0" using assms by (simp add: inBounds_def)
  ultimately show "isLive g i j k"
    using assms(4) by (simp add: only_live_at_def isLive_def getCell_def)
qed

text \<open>
  In terms of the verdicts of \<open>isLive\<close>: \<open>neighbourPop\<close> at \<open>(x, y, z)\<close> is the number of
  positions at Chebyshev distance 1 from \<open>(x, y, z)\<close> that \<open>isLive\<close> reports live; the
  centre is not among them, and a position that \<open>inBounds\<close> rejects is never live. For
  positive half-extents and a grid whose only live cell is the one at \<open>(0, 0, 0)\<close>, the
  count is 0 at \<open>(0, 0, 0)\<close> and 1 at each of its 26 neighbours.
\<close>

lemma neighbourPop_chebyshev:
  "neighbourPop g x y z
     = int (card {p. chebyshev p (x, y, z) = 1 \<and> (case p of (i, j, k) \<Rightarrow> isLive g i j k)})
   \<and> (\<forall>i j k. isLive g i j k \<longrightarrow> inBounds (dims g) i j k)
   \<and> (0 < X (dims g) \<and> 0 < Y (dims g) \<and> 0 < Z (dims g) \<and> only_live_at g 0 0 0 \<longrightarrow>
        neighbourPop g 0 0 0 = 0
        \<and> (\<forall>a b c. chebyshev (a, b, c) (0, 0, 0) = 1 \<longrightarrow> neighbourPop g a b c = 1))"
proof (intro conjI allI impI)
  show "neighbourPop g x y z
     = int (card {p. chebyshev p (x, y, z) = 1 \<and> (case p of (i, j, k) \<Rightarrow> isLive g i j k)})"
    by (rule neighbourPop_card)
next
  fix i j k assume "isLive g i j k"
  then show "inBounds (dims g) i j k" by (rule isLive_inBounds)
next
  assume h: "0 < X (dims g) \<and> 0 < Y (dims g) \<and> 0 < Z (dims g) \<and> only_live_at g 0 0 0"
  then have live: "isLive g i j k \<longleftrightarrow> (i, j, k) = (0, 0, 0)" for i j k
    using only_live_at_isLive by blast
  have pop: "neighbourPop g a b c = int (card {p. chebyshev p (a, b, c) = 1 \<and> p = (0, 0, 0)})" for a b c
    unfolding neighbourPop_card by (rule arg_cong [where f = "\<lambda>S. int (card S)"]) (auto simp: live)
  have "{p. chebyshev p (0, 0, 0) = 1 \<and> p = (0, 0, 0)} = {}"
    by (auto simp: chebyshev_def)
  then show "neighbourPop g 0 0 0 = 0" by (simp add: pop)
  fix a b c assume "chebyshev (a, b, c) (0, 0, 0) = 1"
  then have "{p. chebyshev p (a, b, c) = 1 \<and> p = (0, 0, 0)} = {(0, 0, 0)}"
    by (auto simp: chebyshev_def)
  then show "neighbourPop g a b c = 1" by (simp add: pop)
qed

lemma neighbourPop_centre_example:
  "only_live_at centre_grid 0 0 0 \<and> neighbourPop centre_grid 0 0 0 = 0
   \<and> neighbourPop centre_grid (-1) (-1) (-1) = 1 \<and> neighbourPop centre_grid 1 0 1 = 1"
proof -
  have o: "only_live_at centre_grid 0 0 0"
    by (simp add: only_live_at_def centre_grid_def d111_def indexOf_def js_get_def upt_rec [of _ 8] upt_rec [of _ "Suc _"])
  have d: "0 < X (dims centre_grid)" "0 < Y (dims centre_grid)" "0 < Z (dims centre_grid)"
    by (simp_all add: centre_grid_def d111_def)
  have c: "chebyshev (-1, -1, -1) (0, 0, 0) = 1" "chebyshev (1, 0, 1) (0, 0, 0) = 1"
    by (simp_all add: chebyshev_def)
  from neighbourPop_chebyshev [of centre_grid 0 0 0] o d c show ?thesis by blast
qed

text \<open>
  C2. The claim: \<open>neighbourPop\<close> is the number of live cells among the 26 positions at
  Chebyshev distance 1, never counting a position outside the grid's bounds. Because
  \<open>inBounds\<close> accepts \<open>z = Z\<close>, \<open>getCell\<close> answers for positions of the plane \<open>z = Z\<close>
  with the slot of another cell. In the grid of \<open>after_main\<close> (half-extents \<open>(1, 1, 1)\<close>,
  eight cells, seven of them live) the cell \<open>(-1, -1, 0)\<close> has six live neighbours inside
  the cuboid, and \<open>neighbourPop\<close> returns 9: it also counts \<open>(-1, -1, 1)\<close>, \<open>(-1, 0, 1)\<close>
  and \<open>(0, -1, 1)\<close>.
\<close>

theorem neighbourPop_counts_outside:
  "neighbourPop (grid after_main) (-1) (-1) 0 = 9
   \<and> length (filter (\<lambda>(i, j, k). inCuboid d111 i j k \<and> isLive (grid after_main) i j k)
                     (neighbours26 (-1) (-1) 0)) = 6
   \<and> isLive (grid after_main) (-1) (-1) 1 \<and> isLive (grid after_main) (-1) 0 1
   \<and> isLive (grid after_main) 0 (-1) 1
   \<and> \<not> inCuboid d111 (-1) (-1) 1 \<and> \<not> inCuboid d111 (-1) 0 1 \<and> \<not> inCuboid d111 0 (-1) 1"
  by code_simp

section \<open>The coordinate iterator\<close>

text \<open>
  From a state inside the cuboid (with \<open>k\<close> possibly at its upper end \<open>Z\<close>), the iterator
  yields the coordinates of the cuboid from \<open>(i, j, k)\<close> on, in lexicographic order.
\<close>

lemma set_coords_from:
  "0 < X d \<Longrightarrow> 0 < Y d \<Longrightarrow> 0 < Z d \<Longrightarrow>
   - X d \<le> i \<Longrightarrow> - Y d \<le> j \<Longrightarrow> j < Y d \<Longrightarrow> - Z d \<le> k \<Longrightarrow> k \<le> Z d \<Longrightarrow>
   set (coords_from d i j k) = {(x, y, z). inCuboid d x y z \<and> lex_le (i, j, k) (x, y, z)}"
proof (induction d i j k rule: coords_from.induct)
  case (1 d i j k)
  note pr = "1.prems"
  show ?case
  proof (cases "i < X d")
    case False
    with pr have "coords_from d i j k = []"
      by (subst coords_from.simps) (auto simp: Let_def)
    with False show ?thesis
      by (auto simp: inCuboid_def lex_le_def)
  next
    case i: True
    consider (a) "k < Z d" | (b) "k = Z d" "j + 1 < Y d" | (c) "k = Z d" "j + 1 = Y d" "i + 1 < X d"
      | (e) "k = Z d" "j + 1 = Y d" "i + 1 = X d"
      using pr i by linarith
    then show ?thesis
    proof cases
      case a
      have eq: "coords_from d i j k = (i, j, k) # coords_from d i j (k + 1)"
        using a i pr by (subst coords_from.simps) (simp add: Let_def)
      have ih: "set (coords_from d i j (k + 1)) =
            {(x, y, z). inCuboid d x y z \<and> lex_le (i, j, k + 1) (x, y, z)}"
        using a i pr by (intro "1.IH") (auto simp: Let_def)
      show ?thesis unfolding eq list.set ih using a i pr
        by (auto simp: inCuboid_def lex_le_def)
    next
      case b
      have eq: "coords_from d i j k = (i, j + 1, - Z d) # coords_from d i (j + 1) (- Z d + 1)"
        using b i pr by (subst coords_from.simps) (simp add: Let_def)
      have ih: "set (coords_from d i (j + 1) (- Z d + 1)) =
            {(x, y, z). inCuboid d x y z \<and> lex_le (i, j + 1, - Z d + 1) (x, y, z)}"
        using b i pr by (intro "1.IH") (auto simp: Let_def)
      show ?thesis unfolding eq list.set ih using b i pr
        by (auto simp: inCuboid_def lex_le_def)
    next
      case c
      have eq: "coords_from d i j k = (i + 1, - Y d, - Z d) # coords_from d (i + 1) (- Y d) (- Z d + 1)"
        using c i pr by (subst coords_from.simps) (simp add: Let_def)
      have ih: "set (coords_from d (i + 1) (- Y d) (- Z d + 1)) =
            {(x, y, z). inCuboid d x y z \<and> lex_le (i + 1, - Y d, - Z d + 1) (x, y, z)}"
        using c i pr by (intro "1.IH") (auto simp: Let_def)
      show ?thesis unfolding eq list.set ih using c i pr
        by (auto simp: inCuboid_def lex_le_def)
    next
      case e
      have eq: "coords_from d i j k = []"
        using e i pr by (subst coords_from.simps) (simp add: Let_def)
      show ?thesis unfolding eq using e i pr
        by (auto simp: inCuboid_def lex_le_def)
    qed
  qed
qed

lemma set_coords:
  assumes "0 < X d" "0 < Y d" "0 < Z d"
  shows "set (coords d) = {(x, y, z). inCuboid d x y z}"
proof -
  have "set (coords d) = {(x, y, z). inCuboid d x y z \<and> lex_le (- X d, - Y d, - Z d) (x, y, z)}"
    unfolding coords_def using assms by (intro set_coords_from) auto
  also have "\<dots> = {(x, y, z). inCuboid d x y z}"
    by (auto simp: inCuboid_def lex_le_def)
  finally show ?thesis .
qed

lemma coords_d111:
  "coords d111 = [(- 1, - 1, - 1), (- 1, - 1, 0), (- 1, 0, - 1), (- 1, 0, 0),
                  (0, - 1, - 1), (0, - 1, 0), (0, 0, - 1), (0, 0, 0)]"
  by code_simp

section \<open>makeUpdated\<close>

lemma slot_inj:
  assumes "cub d p" "cub d q" "slot d p = slot d q"
  shows "p = q"
proof -
  obtain x y z x' y' z' where e: "p = (x, y, z)" "q = (x', y', z')"
    by (cases p; cases q) auto
  have c: "inCuboid d x y z" "inCuboid d x' y' z'"
    using assms(1,2) by (simp_all add: cub_def e)
  have "0 \<le> indexOf d x y z" "0 \<le> indexOf d x' y' z'"
    using indexOf_range c by blast+
  then have "indexOf d x y z = indexOf d x' y' z'"
    using assms(3) by (simp add: slot_def e)
  with indexOf_inj [OF c] show ?thesis by (simp add: e)
qed

lemma slot_less:
  assumes "cub d p"
  shows "int (slot d p) < 8 * X d * Y d * Z d"
proof -
  obtain x y z where e: "p = (x, y, z)" by (cases p) auto
  then have "inCuboid d x y z" using assms by (simp add: cub_def)
  from indexOf_range [OF this] show ?thesis by (simp add: slot_def e)
qed

lemma update_cell_in_range:
  assumes "cub (dims og) p" "int (length a) = 8 * X (dims og) * Y (dims og) * Z (dims og)"
          "length c = length a"
  shows "update_cell rules og p (a, c) =
           (a[slot (dims og) p := Some (new_value rules og p)],
            if in_core rules og p then c[slot (dims og) p := Some 1] else c)"
proof -
  obtain x y z where p: "p = (x, y, z)" by (cases p) auto
  have "0 \<le> indexOf (dims og) x y z" "indexOf (dims og) x y z < int (length a)"
    using indexOf_range [of "dims og" x y z] assms by (simp_all add: cub_def p)
  then show ?thesis using assms(3)
    by (simp add: update_cell_def p js_set_def Let_def new_value_def in_core_def slot_def)
qed

lemma fold_update_cell:
  assumes "\<forall>p \<in> set cs. cub (dims og) p"
      and "int (length a) = 8 * X (dims og) * Y (dims og) * Z (dims og)" and "length c = length a"
  shows "\<exists>a' c'. fold (update_cell rules og) cs (a, c) = (a', c')
           \<and> length a' = length a \<and> length c' = length a
           \<and> (\<forall>q. cub (dims og) q \<longrightarrow>
                 a' ! slot (dims og) q = (if q \<in> set cs then Some (new_value rules og q) else a ! slot (dims og) q)
               \<and> c' ! slot (dims og) q = (if q \<in> set cs \<and> in_core rules og q then Some 1 else c ! slot (dims og) q))"
  using assms(1)
proof (induction cs rule: rev_induct)
  case Nil
  then show ?case using assms by simp
next
  case (snoc p cs)
  have "\<forall>p \<in> set cs. cub (dims og) p" using snoc.prems by simp
  from snoc.IH [OF this]
  obtain a' c' where f: "fold (update_cell rules og) cs (a, c) = (a', c')"
    and l: "length a' = length a" "length c' = length a"
    and v: "\<forall>q. cub (dims og) q \<longrightarrow>
                 a' ! slot (dims og) q = (if q \<in> set cs then Some (new_value rules og q) else a ! slot (dims og) q)
               \<and> c' ! slot (dims og) q = (if q \<in> set cs \<and> in_core rules og q then Some 1 else c ! slot (dims og) q)"
    by blast
  have p: "cub (dims og) p" using snoc.prems by simp
  let ?a = "a'[slot (dims og) p := Some (new_value rules og p)]"
  let ?c = "if in_core rules og p then c'[slot (dims og) p := Some 1] else c'"
  have u: "update_cell rules og p (a', c') = (?a, ?c)"
    using p assms l by (intro update_cell_in_range) simp_all
  have sl: "slot (dims og) p < length a"
    using slot_less [OF p] assms(2) by simp
  have fo: "fold (update_cell rules og) (cs @ [p]) (a, c) = (?a, ?c)"
    by (simp add: f u)
  have la: "length ?a = length a" and lc: "length ?c = length a"
    using l by simp_all
  have va: "?a ! slot (dims og) q =
         (if q \<in> set (cs @ [p]) then Some (new_value rules og q) else a ! slot (dims og) q)"
   and vc: "?c ! slot (dims og) q =
         (if q \<in> set (cs @ [p]) \<and> in_core rules og q then Some 1 else c ! slot (dims og) q)"
    if q: "cub (dims og) q" for q
  proof -
    from v q have vq: "a' ! slot (dims og) q = (if q \<in> set cs then Some (new_value rules og q) else a ! slot (dims og) q)"
      "c' ! slot (dims og) q = (if q \<in> set cs \<and> in_core rules og q then Some 1 else c ! slot (dims og) q)"
      by blast+
    show "?a ! slot (dims og) q =
         (if q \<in> set (cs @ [p]) then Some (new_value rules og q) else a ! slot (dims og) q)"
    proof (cases "q = p")
      case True
      then show ?thesis using sl l by simp
    next
      case False
      then have "slot (dims og) p \<noteq> slot (dims og) q"
        using slot_inj [OF p q] by blast
      then show ?thesis using False vq(1) by simp
    qed
    show "?c ! slot (dims og) q =
         (if q \<in> set (cs @ [p]) \<and> in_core rules og q then Some 1 else c ! slot (dims og) q)"
    proof (cases "q = p")
      case True
      then show ?thesis using sl l vq(2) by simp
    next
      case False
      then have "slot (dims og) p \<noteq> slot (dims og) q"
        using slot_inj [OF p q] by blast
      then show ?thesis using False vq(2) by simp
    qed
  qed
  show ?case
    unfolding fo using la lc va vc by blast
qed

lemma makeUpdated_centre_main: "makeUpdated centre_state main_rules = Inr after_main"
  by code_simp

lemma makeUpdated_centre_keep: "makeUpdated centre_state keep_rules = Inr after_keep"
  by code_simp

lemma makeUpdated_in_cuboid:
  assumes "0 < X (dims (grid old))" "0 < Y (dims (grid old))" "0 < Z (dims (grid old))"
      and "8 * X (dims (grid old)) * Y (dims (grid old)) * Z (dims (grid old)) < 2 ^ 32"
  shows "\<exists>new. makeUpdated old rules = Inr new \<and> oldGrid new = grid old
           \<and> (\<forall>x y z. inCuboid (dims (grid old)) x y z \<longrightarrow>
                 getCell (grid new) x y z
                   = Some (rules (getCell (grid old) x y z) (neighbourPop (grid old) x y z))
               \<and> getCell (core new) x y z
                   = (if rules (getCell (grid old) x y z) (neighbourPop (grid old) x y z) > 0
                         \<and> isVisible (grid old) x y z
                      then Some 1 else None))"
proof -
  let ?og = "grid old" let ?d = "dims ?og"
  let ?n = "8 * X ?d * Y ?d * Z ?d"
  let ?e = "replicate (nat ?n) (None :: int option)"
  have n0: "0 \<le> ?n" using assms by simp
  have an: "Array_new ?n = Inr ?e"
    using assms(4) n0 unfolding Array_new_def by simp
  have cs: "set (coords ?d) = {(x, y, z). inCuboid ?d x y z}"
    using assms by (intro set_coords)
  then have "\<forall>p \<in> set (coords ?d). cub ?d p" by (auto simp: cub_def)
  then have "\<exists>a' c'. fold (update_cell rules ?og) (coords ?d) (?e, ?e) = (a', c')
           \<and> length a' = length ?e \<and> length c' = length ?e
           \<and> (\<forall>q. cub ?d q \<longrightarrow>
                 a' ! slot ?d q = (if q \<in> set (coords ?d) then Some (new_value rules ?og q) else ?e ! slot ?d q)
               \<and> c' ! slot ?d q = (if q \<in> set (coords ?d) \<and> in_core rules ?og q then Some 1 else ?e ! slot ?d q))"
    using n0 by (intro fold_update_cell) simp_all
  then obtain a' c' where f: "fold (update_cell rules ?og) (coords ?d) (?e, ?e) = (a', c')"
    and l0: "length a' = length ?e" "length c' = length ?e"
    and v: "\<forall>q. cub ?d q \<longrightarrow>
                 a' ! slot ?d q = (if q \<in> set (coords ?d) then Some (new_value rules ?og q) else ?e ! slot ?d q)
               \<and> c' ! slot ?d q = (if q \<in> set (coords ?d) \<and> in_core rules ?og q then Some 1 else ?e ! slot ?d q)"
    by blast
  have l: "length a' = nat ?n" "length c' = nat ?n" using l0 by simp_all
  let ?new = "\<lparr>grid = \<lparr>dims = ?d, cells = a', states = states ?og\<rparr>, oldGrid = ?og,
               core = \<lparr>dims = ?d, cells = c', states = 2\<rparr>\<rparr>"
  have mk: "makeUpdated old rules = Inr ?new"
    using l n0 by (simp add: makeUpdated_def Let_def an f makeFromCells_def)
  have "getCell (grid ?new) x y z = Some (rules (getCell ?og x y z) (neighbourPop ?og x y z))
      \<and> getCell (core ?new) x y z
           = (if rules (getCell ?og x y z) (neighbourPop ?og x y z) > 0 \<and> isVisible ?og x y z
              then Some 1 else None)"
    if c: "inCuboid ?d x y z" for x y z
  proof -
    have ib: "inBounds ?d x y z" using c by (simp add: inCuboid_def inBounds_def)
    have r: "0 \<le> indexOf ?d x y z" "indexOf ?d x y z < ?n" using indexOf_range [OF c] by simp_all
    have m: "(x, y, z) \<in> set (coords ?d)" using c cs by simp
    have q: "cub ?d (x, y, z)" using c by (simp add: cub_def)
    have s: "slot ?d (x, y, z) < nat ?n" using r by (simp add: slot_def)
    from v q have "a' ! slot ?d (x, y, z) = (if (x, y, z) \<in> set (coords ?d) then Some (new_value rules ?og (x, y, z)) else ?e ! slot ?d (x, y, z))"
      "c' ! slot ?d (x, y, z) = (if (x, y, z) \<in> set (coords ?d) \<and> in_core rules ?og (x, y, z) then Some 1 else ?e ! slot ?d (x, y, z))"
      by blast+
    with m s have "a' ! nat (indexOf ?d x y z) = Some (rules (getCell ?og x y z) (neighbourPop ?og x y z))"
      "c' ! nat (indexOf ?d x y z) = (if rules (getCell ?og x y z) (neighbourPop ?og x y z) > 0 \<and> isVisible ?og x y z
              then Some 1 else None)"
      by (simp_all add: slot_def new_value_def in_core_def)
    then show ?thesis
      using ib r l by (simp add: getCell_def js_get_def)
  qed
  with mk show ?thesis by (intro exI [of _ ?new]) simp
qed


lemma makeUpdated_returns_bounds:
  assumes "makeUpdated old rules = Inr new"
  shows "oldGrid new = grid old"
    and "8 * X (dims (grid old)) * Y (dims (grid old)) * Z (dims (grid old)) < 2 ^ 32"
proof -
  let ?n = "8 * X (dims (grid old)) * Y (dims (grid old)) * Z (dims (grid old))"
  show "?n < 2 ^ 32"
  proof (rule ccontr)
    assume "\<not> ?n < 2 ^ 32"
    then have "Array_new ?n = (Inl RangeError :: error + int jsarray)"
      by (simp add: Array_new_def)
    then have "makeUpdated old rules = Inl RangeError"
      by (simp add: makeUpdated_def Let_def)
    with assms show False by simp
  qed
  obtain e where "Array_new ?n = (Inr e :: error + int jsarray)"
    using \<open>?n < 2 ^ 32\<close> assms
    by (cases "0 \<le> ?n") (simp_all add: Array_new_def makeUpdated_def Let_def)
  moreover obtain a c where "fold (update_cell rules (grid old)) (coords (dims (grid old))) (e, e) = (a, c)"
    by (cases "fold (update_cell rules (grid old)) (coords (dims (grid old))) (e, e)") auto
  ultimately show "oldGrid new = grid old"
    using assms
    by (auto simp: makeUpdated_def Let_def split: option.splits)
qed


text \<open>
  What holds on the half-open cuboid \<open>[-X, X) \<times> [-Y, Y) \<times> [-Z, Z)\<close> (the coordinates
  that the iterator visits). \<open>makeUpdated\<close> returns a state for positive half-extents with
  \<open>8 * X * Y * Z\<close> below the array length limit \<open>2^32\<close>; whenever it returns a state, the
  \<open>oldGrid\<close> of that state is the old state's grid and, on the cuboid, the new grid's cell
  is the rule's value for the old cell and its old neighbour count, and the core grid's
  cell is 1 exactly when that value is positive and the cell was visible in the old grid.
  Where it is not 1 it is an empty slot.
\<close>

lemma makeUpdated_on_cuboid:
  "(0 < X (dims (grid old)) \<and> 0 < Y (dims (grid old)) \<and> 0 < Z (dims (grid old))
      \<and> 8 * X (dims (grid old)) * Y (dims (grid old)) * Z (dims (grid old)) < 2 ^ 32
      \<longrightarrow> returns (makeUpdated old rules))
   \<and> (\<forall>new. makeUpdated old rules = Inr new \<longrightarrow>
          oldGrid new = grid old
          \<and> (\<forall>x y z. inCuboid (dims (grid old)) x y z \<longrightarrow>
                getCell (grid new) x y z
                  = Some (rules (getCell (grid old) x y z) (neighbourPop (grid old) x y z))
              \<and> (getCell (core new) x y z = Some 1 \<longleftrightarrow>
                   rules (getCell (grid old) x y z) (neighbourPop (grid old) x y z) > 0
                   \<and> isVisible (grid old) x y z)
              \<and> getCell (core new) x y z
                  = (if rules (getCell (grid old) x y z) (neighbourPop (grid old) x y z) > 0
                        \<and> isVisible (grid old) x y z
                     then Some 1 else None)))"
proof (intro conjI allI impI)
  assume "0 < X (dims (grid old)) \<and> 0 < Y (dims (grid old)) \<and> 0 < Z (dims (grid old))
      \<and> 8 * X (dims (grid old)) * Y (dims (grid old)) * Z (dims (grid old)) < 2 ^ 32"
  then show "returns (makeUpdated old rules)"
    using makeUpdated_in_cuboid [of old rules] by (auto simp: returns_def)
next
  fix new assume r: "makeUpdated old rules = Inr new"
  show "oldGrid new = grid old"
    using r by (rule makeUpdated_returns_bounds)
  fix x y z assume c: "inCuboid (dims (grid old)) x y z"
  then have "0 < X (dims (grid old))" "0 < Y (dims (grid old))" "0 < Z (dims (grid old))"
    by (simp_all add: inCuboid_def)
  from makeUpdated_in_cuboid [OF this makeUpdated_returns_bounds(2) [OF r], of rules] r c
  show "getCell (grid new) x y z
          = Some (rules (getCell (grid old) x y z) (neighbourPop (grid old) x y z))"
    and e: "getCell (core new) x y z
          = (if rules (getCell (grid old) x y z) (neighbourPop (grid old) x y z) > 0
                \<and> isVisible (grid old) x y z
             then Some 1 else None)"
    by auto
  from e show "getCell (core new) x y z = Some 1 \<longleftrightarrow>
                   rules (getCell (grid old) x y z) (neighbourPop (grid old) x y z) > 0
                   \<and> isVisible (grid old) x y z"
    by simp
qed

text \<open>
  C1. The claim: after \<open>makeUpdated(old, rule)\<close>, for every in-bounds coordinate \<open>c\<close> the
  new grid's cell at \<open>c\<close> is \<open>rule(oldGrid.getCell(c), oldGrid.neighbourPop(c))\<close>, and the
  core grid's cell at \<open>c\<close> is 1 if that value is positive and \<open>c\<close> was visible in the old
  grid, else 0. For the state \<open>centre_state\<close> and the rule of \<open>main.ts\<close> the code returns
  \<open>after_main\<close>, and there:
  the coordinate \<open>(0, 0, 1)\<close> is in bounds (\<open>z <= Z\<close>) and the rule's value for it is 1,
  but the new grid has no cell at it (its index 8 is past the end of the array);
  the coordinate \<open>(-1, -1, -1)\<close> is in bounds, inside the cuboid and was not visible in the
  old grid, and the core grid's cell at it is an empty slot (\<open>getCell\<close> gives
  \<open>undefined\<close>), not 0: \<open>newCore\<close> is created by \<open>Array(n)\<close> and only ever assigned 1.
\<close>

theorem makeUpdated_cells_fail:
  "makeUpdated centre_state main_rules = Inr after_main
   \<and> inBounds (dims (grid centre_state)) 0 0 1
   \<and> main_rules (getCell (grid centre_state) 0 0 1) (neighbourPop (grid centre_state) 0 0 1) = 1
   \<and> getCell (grid after_main) 0 0 1 = None
   \<and> indexOf (dims (grid centre_state)) 0 0 1 = 8
   \<and> inBounds (dims (grid centre_state)) (-1) (-1) (-1)
   \<and> inCuboid (dims (grid centre_state)) (-1) (-1) (-1)
   \<and> main_rules (getCell (grid centre_state) (-1) (-1) (-1))
                 (neighbourPop (grid centre_state) (-1) (-1) (-1)) = 1
   \<and> \<not> isVisible (grid centre_state) (-1) (-1) (-1)
   \<and> getCell (core after_main) (-1) (-1) (-1) = None
   \<and> getCell (core after_main) (-1) (-1) (-1) \<noteq> Some 0
   \<and> cells (core after_main) = [None, None, None, None, None, None, None, None]"
  by code_simp

section \<open>skipUpdates\<close>

text \<open>The object \<open>{ length: iterations }\<close> has one property, so the loop body runs once.\<close>

lemma skipUpdates_once: "skipUpdates initState rules iterations = makeUpdated initState rules"
  by (simp add: skipUpdates_def for_in_keys_def)

text \<open>
  C4. The claim: \<open>skipUpdates(initState, rule, n)\<close> applies \<open>makeUpdated\<close> \<open>n\<close> times. The
  code applies it once whatever \<open>n\<close> is: with \<open>n = 0\<close> the result is not the initial state,
  and with \<open>n = 3\<close> it is the state after one update, not the state after three.
\<close>

theorem skipUpdates_runs_once:
  "skipUpdates centre_state main_rules 0 = Inr after_main
   \<and> after_main \<noteq> centre_state
   \<and> skipUpdates centre_state main_rules 3 = Inr after_main
   \<and> makeUpdated centre_state main_rules = Inr after_main
   \<and> makeUpdated after_main main_rules = Inr after_main2
   \<and> makeUpdated after_main2 main_rules = Inr after_main3
   \<and> after_main3 \<noteq> after_main"
proof -
  have "makeUpdated after_main main_rules = Inr after_main2"
    "makeUpdated after_main2 main_rules = Inr after_main3"
    by code_simp+
  moreover have "after_main \<noteq> centre_state" "after_main3 \<noteq> after_main"
    by (simp_all add: after_main_def after_main3_def centre_state_def makeFromGrid_def centre_grid_def)
  ultimately show ?thesis
    by (simp add: skipUpdates_once makeUpdated_centre_main)
qed

section \<open>Faces of a cell\<close>

lemma Face_makeFromCell_culled:
  "Face_makeFromCell g x y z aoGrid = map (face_at aoGrid x y z) (culled_sides g x y z)"
  by (auto simp: Face_makeFromCell_def culled_sides_def SIDES_def face_at_def Let_def split: prod.splits)

lemma makeAllFromCell_sides:
  "makeAllFromCell x y z aoGrid = map (face_at aoGrid x y z) [XNEG, YPOS, ZNEG]"
  by (simp add: makeAllFromCell_def SIDES_def face_at_def)

lemma pair_by_index:
  "map (\<lambda>(i, a). h a (nth_opt (map g xs) i)) (enumerate 0 (map f xs))
     = map (\<lambda>x. h (f x) (Some (g x))) xs"
  by (rule nth_equalityI) (simp_all add: nth_enumerate_eq nth_opt_def)

lemma makeFromCell_none:
  assumes "\<not> isVisible (oldGrid st) x y z" "\<not> isVisible (grid st) x y z"
  shows "AnimFace_makeFromCell st x y z = []"
  using assms by (simp add: AnimFace_makeFromCell_def)

lemma makeFromCell_grow:
  assumes "\<not> isVisible (oldGrid st) x y z" "isVisible (grid st) x y z"
  shows "AnimFace_makeFromCell st x y z =
         map (\<lambda>s. \<lparr>af_start = None, af_end = Some (face_at (grid st) x y z s), af_type = GROW\<rparr>)
             [XNEG, YPOS, ZNEG]"
  using assms by (simp add: AnimFace_makeFromCell_def makeAllFromCell_sides makeGrowing_def)

lemma makeFromCell_shrink:
  assumes "isVisible (oldGrid st) x y z" "\<not> isVisible (grid st) x y z"
  shows "AnimFace_makeFromCell st x y z =
         map (\<lambda>s. \<lparr>af_start = Some (face_at (oldGrid st) x y z s), af_end = None, af_type = SHRINK\<rparr>)
             [XNEG, YPOS, ZNEG]"
  using assms by (simp add: AnimFace_makeFromCell_def makeAllFromCell_sides makeShrinking_def)

lemma makeFromCell_both:
  assumes "isVisible (oldGrid st) x y z" "isVisible (grid st) x y z"
  shows "AnimFace_makeFromCell st x y z =
         map (\<lambda>s. \<lparr>af_start = Some (face_at (oldGrid st) x y z s),
                    af_end = Some (face_at (grid st) x y z s), af_type = AO_ONLY\<rparr>)
             (culled_sides (core st) x y z)"
proof -
  have "AnimFace_makeFromCell st x y z =
      map (\<lambda>(i, s). makeTransition s
                      (nth_opt (map (face_at (grid st) x y z) (culled_sides (core st) x y z)) i) AO_ONLY)
          (enumerate 0 (map (face_at (oldGrid st) x y z) (culled_sides (core st) x y z)))"
    using assms by (simp add: AnimFace_makeFromCell_def Face_makeFromCell_culled Let_def)
  also have "\<dots> = map (\<lambda>s. makeTransition (face_at (oldGrid st) x y z s)
                                          (Some (face_at (grid st) x y z s)) AO_ONLY)
                       (culled_sides (core st) x y z)"
    by (rule pair_by_index [where h = "\<lambda>s e. makeTransition s e AO_ONLY"])
  finally show ?thesis
    by (simp add: makeTransition_def)
qed

text \<open>
  C3. \<open>AnimFace.makeFromCell\<close> by the visibility of the cell in the old and the new grid:
  not visible in either, no faces; appearing, one \<open>GROW\<close> face per orientation with the
  AO of the new grid; disappearing, one \<open>SHRINK\<close> face per orientation with the AO of the
  old grid; visible in both, one \<open>AO_ONLY\<close> face per orientation kept by culling against
  the core grid, whose start face has the AO of the old grid and whose end face, of the
  same orientation, has the AO of the new grid.
\<close>

theorem AnimFace_makeFromCell_cases:
  "(\<not> isVisible (oldGrid st) x y z \<and> \<not> isVisible (grid st) x y z \<longrightarrow>
       AnimFace_makeFromCell st x y z = [])
   \<and> (\<not> isVisible (oldGrid st) x y z \<and> isVisible (grid st) x y z \<longrightarrow>
       AnimFace_makeFromCell st x y z =
         map (\<lambda>s. \<lparr>af_start = None, af_end = Some (face_at (grid st) x y z s), af_type = GROW\<rparr>)
             [XNEG, YPOS, ZNEG])
   \<and> (isVisible (oldGrid st) x y z \<and> \<not> isVisible (grid st) x y z \<longrightarrow>
       AnimFace_makeFromCell st x y z =
         map (\<lambda>s. \<lparr>af_start = Some (face_at (oldGrid st) x y z s), af_end = None, af_type = SHRINK\<rparr>)
             [XNEG, YPOS, ZNEG])
   \<and> (isVisible (oldGrid st) x y z \<and> isVisible (grid st) x y z \<longrightarrow>
       AnimFace_makeFromCell st x y z =
         map (\<lambda>s. \<lparr>af_start = Some (face_at (oldGrid st) x y z s),
                    af_end = Some (face_at (grid st) x y z s), af_type = AO_ONLY\<rparr>)
             (culled_sides (core st) x y z))"
  using makeFromCell_none [of st x y z] makeFromCell_grow [of st x y z]
        makeFromCell_shrink [of st x y z] makeFromCell_both [of st x y z]
  by blast

theorem AnimFace_makeFromCell_cases_witness:
  "AnimFace_makeFromCell after_keep (-1) (-1) (-1) = []
   \<and> map af_type (AnimFace_makeFromCell after_main (-1) (-1) (-1)) = [GROW, GROW, GROW]
   \<and> map af_type (AnimFace_makeFromCell after_main 0 0 0) = [SHRINK, SHRINK, SHRINK]
   \<and> map af_type (AnimFace_makeFromCell after_keep 0 0 0) = [AO_ONLY, AO_ONLY, AO_ONLY]
   \<and> map (map_option side \<circ> af_start) (AnimFace_makeFromCell after_keep 0 0 0)
       = map (map_option side \<circ> af_end) (AnimFace_makeFromCell after_keep 0 0 0)"
proof -
  have v: "\<not> isVisible (oldGrid after_keep) (-1) (-1) (-1) \<and> \<not> isVisible (grid after_keep) (-1) (-1) (-1)"
    "\<not> isVisible (oldGrid after_main) (-1) (-1) (-1) \<and> isVisible (grid after_main) (-1) (-1) (-1)"
    "isVisible (oldGrid after_main) 0 0 0 \<and> \<not> isVisible (grid after_main) 0 0 0"
    "isVisible (oldGrid after_keep) 0 0 0 \<and> isVisible (grid after_keep) 0 0 0"
    by code_simp+
  have c: "culled_sides (core after_keep) 0 0 0 = [XNEG, YPOS, ZNEG]"
    by code_simp
  from AnimFace_makeFromCell_cases [of after_keep "-1" "-1" "-1"] v(1)
  have "AnimFace_makeFromCell after_keep (-1) (-1) (-1) = []" by blast
  moreover from AnimFace_makeFromCell_cases [of after_main "-1" "-1" "-1"] v(2)
  have "map af_type (AnimFace_makeFromCell after_main (-1) (-1) (-1)) = [GROW, GROW, GROW]"
    by simp
  moreover from AnimFace_makeFromCell_cases [of after_main 0 0 0] v(3)
  have "map af_type (AnimFace_makeFromCell after_main 0 0 0) = [SHRINK, SHRINK, SHRINK]"
    by simp
  moreover from AnimFace_makeFromCell_cases [of after_keep 0 0 0] v(4)
  have "AnimFace_makeFromCell after_keep 0 0 0 =
         map (\<lambda>s. \<lparr>af_start = Some (face_at (oldGrid after_keep) 0 0 0 s),
                    af_end = Some (face_at (grid after_keep) 0 0 0 s), af_type = AO_ONLY\<rparr>)
             (culled_sides (core after_keep) 0 0 0)"
    by blast
  then have "map af_type (AnimFace_makeFromCell after_keep 0 0 0) = [AO_ONLY, AO_ONLY, AO_ONLY]"
    "map (map_option side \<circ> af_start) (AnimFace_makeFromCell after_keep 0 0 0)
       = map (map_option side \<circ> af_end) (AnimFace_makeFromCell after_keep 0 0 0)"
    by (simp_all add: c face_at_def)
  ultimately show ?thesis by blast
qed

section \<open>Endpoints of the animated faces\<close>

lemma set_fold_append:
  "set (fold (\<lambda>c faces. case c of (x, y, z) \<Rightarrow> faces @ f x y z) cs acc)
     = set acc \<union> (\<Union>c \<in> set cs. case c of (x, y, z) \<Rightarrow> set (f x y z))"
  by (induction cs arbitrary: acc) (auto split: prod.splits)

lemma set_makeFromGridState:
  "a \<in> set (makeFromGridState st) \<longleftrightarrow>
     (\<exists>x y z. (x, y, z) \<in> set (coords (dims (grid st))) \<and> a \<in> set (AnimFace_makeFromCell st x y z))"
  unfolding makeFromGridState_def set_fold_append by auto

lemma makeFromCell_endpoints:
  assumes "a \<in> set (AnimFace_makeFromCell st x y z)"
  shows "endpoints_present a"
proof -
  consider "\<not> isVisible (oldGrid st) x y z" "\<not> isVisible (grid st) x y z"
    | "\<not> isVisible (oldGrid st) x y z" "isVisible (grid st) x y z"
    | "isVisible (oldGrid st) x y z" "\<not> isVisible (grid st) x y z"
    | "isVisible (oldGrid st) x y z" "isVisible (grid st) x y z"
    by blast
  then show ?thesis
  proof cases
    case 1
    from makeFromCell_none [OF this] assms show ?thesis by simp
  next
    case 2
    from makeFromCell_grow [OF this] assms show ?thesis
      by (auto simp: endpoints_present_def)
  next
    case 3
    from makeFromCell_shrink [OF this] assms show ?thesis
      by (auto simp: endpoints_present_def)
  next
    case 4
    from makeFromCell_both [OF this] assms show ?thesis
      by (auto simp: endpoints_present_def)
  qed
qed

lemma length_Face_getVertices: "length (Face_getVertices f s) = 4"
  by (cases "side f") (simp_all add: Face_getVertices_def)

lemma those_no_None: "None \<notin> set xs \<Longrightarrow> \<exists>vs. those xs = Some vs"
proof (induction xs)
  case Nil
  show ?case by simp
next
  case (Cons a xs)
  then obtain y vs where "a = Some y" "those xs = Some vs"
    by (cases a) auto
  then show ?case by simp
qed

lemma transition_vertices:
  "\<exists>vs. those (map (\<lambda>(i, vert). map_option (\<lambda>ev. mix3 vert ev c) (nth_opt (Face_getVertices e t) i))
                (enumerate 0 (Face_getVertices s t))) = Some vs"
  by (rule those_no_None)
     (auto simp: in_set_enumerate_eq nth_opt_def length_Face_getVertices)

lemma endpoints_present_returns:
  assumes "endpoints_present a"
  shows "returns (AnimFace_getVertices a p) \<and> returns (AnimFace_getNorm a p)
         \<and> returns (AnimFace_getIndices a offset) \<and> returns (AnimFace_getAOs a p)"
proof (cases "af_type a")
  case GROW
  with assms show ?thesis
    by (auto simp: endpoints_present_def returns_def AnimFace_getVertices_def AnimFace_getNorm_def
          AnimFace_getIndices_def AnimFace_getAOs_def)
next
  case SHRINK
  with assms show ?thesis
    by (auto simp: endpoints_present_def returns_def AnimFace_getVertices_def AnimFace_getNorm_def
          AnimFace_getIndices_def AnimFace_getAOs_def)
next
  case TRANSITION
  with assms obtain s e where se: "af_start a = Some s" "af_end a = Some e"
    by (auto simp: endpoints_present_def)
  obtain vs where "those (map (\<lambda>(i, vert). map_option (\<lambda>ev. mix3 vert ev (smoothStep p)) (nth_opt (Face_getVertices e 1.0) i))
                (enumerate 0 (Face_getVertices s 1.0))) = Some vs"
    using transition_vertices by blast
  with TRANSITION se show ?thesis
    by (simp add: returns_def AnimFace_getVertices_def AnimFace_getNorm_def
          AnimFace_getIndices_def AnimFace_getAOs_def)
next
  case AO_ONLY
  with assms show ?thesis
    by (auto simp: endpoints_present_def returns_def AnimFace_getVertices_def AnimFace_getNorm_def
          AnimFace_getIndices_def AnimFace_getAOs_def)
qed

text \<open>
  C10. Every animated face made by \<open>AnimFace.makeFromCell\<close>, and so every face made by
  \<open>makeFromGridState\<close>, has the endpoints that its type requires, and its accessors
  return a value for every progress and offset. In the both-visible branch the start and
  end face lists have the same length.
\<close>

theorem produced_faces_endpoints:
  "(\<forall>a. a \<in> set (AnimFace_makeFromCell st x y z) \<or> a \<in> set (makeFromGridState st) \<longrightarrow>
        endpoints_present a
        \<and> (\<forall>p offset. returns (AnimFace_getVertices a p) \<and> returns (AnimFace_getNorm a p)
                     \<and> returns (AnimFace_getIndices a offset) \<and> returns (AnimFace_getAOs a p)))
   \<and> length (Face_makeFromCell (core st) x y z (oldGrid st))
       = length (Face_makeFromCell (core st) x y z (grid st))"
proof (intro conjI allI impI)
  fix a assume "a \<in> set (AnimFace_makeFromCell st x y z) \<or> a \<in> set (makeFromGridState st)"
  then show e: "endpoints_present a"
    using makeFromCell_endpoints set_makeFromGridState by blast
  fix p offset
  from endpoints_present_returns [OF e]
  show "returns (AnimFace_getVertices a p)" "returns (AnimFace_getNorm a p)"
     "returns (AnimFace_getIndices a offset)" "returns (AnimFace_getAOs a p)"
    by blast+
next
  show "length (Face_makeFromCell (core st) x y z (oldGrid st))
       = length (Face_makeFromCell (core st) x y z (grid st))"
    by (simp add: Face_makeFromCell_culled)
qed

theorem produced_faces_endpoints_witness:
  "grow_face \<in> set (AnimFace_makeFromCell after_main (-1) (-1) (-1))
   \<and> endpoints_present grow_face
   \<and> returns (AnimFace_getVertices grow_face (1/4)) \<and> returns (AnimFace_getNorm grow_face (1/4))
   \<and> returns (AnimFace_getIndices grow_face 4) \<and> returns (AnimFace_getAOs grow_face (1/4))"
proof -
  have "AnimFace_makeFromCell after_main (-1) (-1) (-1) ! 1 = grow_face"
       "length (AnimFace_makeFromCell after_main (-1) (-1) (-1)) = 3"
    by code_simp+
  then have m: "grow_face \<in> set (AnimFace_makeFromCell after_main (-1) (-1) (-1))"
    by (metis nth_mem one_less_numeral_iff semiring_norm(77))
  with produced_faces_endpoints [of after_main "-1" "-1" "-1"] show ?thesis by blast
qed

section \<open>Interpolation of the AO values\<close>

text \<open>
  What \<open>getAOs\<close> computes for a growing face: \<open>mix4\<close> applies \<open>smoothStep\<close> to the control
  value it is given, which already is \<open>smoothStep progress\<close>.
\<close>

lemma getAOs_grow:
  assumes "af_type a = GROW" "af_end a = Some e" "aos e = (e0, e1, e2, e3)"
  shows "AnimFace_getAOs a p =
           Inr (mix 1 e0 (smoothStep (smoothStep p)), mix 1 e1 (smoothStep (smoothStep p)),
                mix 1 e2 (smoothStep (smoothStep p)), mix 1 e3 (smoothStep (smoothStep p)))"
  using assms by (simp add: AnimFace_getAOs_def mix4_def Let_def)

text \<open>
  C7. The claim: \<open>getAOs(p)\<close> mixes the endpoints with the factor \<open>smoothStep(p)\<close>. For the
  growing face \<open>grow_face\<close> (end AO \<open>(3/4, 1, 1/4, 3/4)\<close>) and \<open>p = 1/4\<close> the factor of the
  claim is \<open>5/32\<close>, which gives the first component \<open>123/128\<close>; the code mixes with
  \<open>smoothStep(5/32) = 1075/16384\<close> and returns \<open>64461/65536\<close>.
\<close>

theorem getAOs_double_smoothStep:
  "grow_face \<in> set (AnimFace_makeFromCell after_main (-1) (-1) (-1))
   \<and> AnimFace_getAOs grow_face (1/4) = Inr (64461/65536, 1, 62311/65536, 64461/65536)
   \<and> smoothStep (1/4) = 5/32
   \<and> smoothStep (smoothStep (1/4)) = 1075/16384
   \<and> (mix 1 (3/4) (smoothStep (1/4)), mix 1 1 (smoothStep (1/4)),
       mix 1 (1/4) (smoothStep (1/4)), mix 1 (3/4) (smoothStep (1/4)))
       = (123/128, 1, 113/128, 123/128)"
proof -
  have "AnimFace_makeFromCell after_main (-1) (-1) (-1) ! 1 = grow_face"
       "length (AnimFace_makeFromCell after_main (-1) (-1) (-1)) = 3"
    by code_simp+
  then have "grow_face \<in> set (AnimFace_makeFromCell after_main (-1) (-1) (-1))"
    by (metis nth_mem one_less_numeral_iff semiring_norm(77))
  moreover have "AnimFace_getAOs grow_face (1/4) = Inr (64461/65536, 1, 62311/65536, 64461/65536)"
    by (simp add: AnimFace_getAOs_def grow_face_def mix4_def mix_def smoothStep_def clamp_def Let_def)
  moreover have "smoothStep (1/4) = 5/32" "smoothStep (smoothStep (1/4)) = 1075/16384"
    by (simp_all add: smoothStep_def clamp_def)
  ultimately show ?thesis
    by (simp add: mix_def)
qed

end
